theory Spec2Isabelle
  imports Main
begin

section \<open>The store of bm.py\<close>

text \<open>
  The program keeps three SQLite tables. A row is a record whose fields carry the
  column names behind the alias the source's queries use (\<open>m.mid\<close>, \<open>b.bprice\<close>,
  \<open>s.sqty\<close>). A table that has not been created yet is \<open>None\<close>; a table is the list
  of its rows in insertion order. \<open>sale_seq\<close> is the entry SQLite keeps for
  \<open>sale\<close> in \<open>sqlite_sequence\<close> because \<open>sid\<close> is declared \<open>AUTOINCREMENT\<close>: the
  largest \<open>sid\<close> ever given out, 0 before the first insertion.
\<close>

record member_row =
  m_mid :: string
  m_mname :: string
  m_mphone :: string
  m_memail :: "string option"

record book_row =
  b_bid :: string
  b_btitle :: string
  b_bprice :: int
  b_bstock :: int

record sale_row =
  s_sid :: int
  s_sdate :: string
  s_mid :: string
  s_bid :: string
  s_sqty :: int
  s_sdiscount :: int
  s_stotal :: int

record db =
  member_tbl :: "member_row list option"
  book_tbl :: "book_row list option"
  sale_tbl :: "sale_row list option"
  sale_seq :: int

text \<open>
  The exceptions the calls into \<open>sqlite3\<close> and \<open>input\<close> can raise.
  \<open>OperationalError\<close>: a statement names a table that does not exist, or the
  \<open>AUTOINCREMENT\<close> key space is used up. \<open>IntegrityError\<close>: a \<open>PRIMARY KEY\<close> is
  inserted twice. \<open>OverflowError\<close>: a Python integer bound to a \<open>?\<close> does not fit
  the signed 64-bit \<open>INTEGER\<close> of SQLite. \<open>EOFError\<close>: \<open>input()\<close> finds no line.
\<close>

datatype exn = OperationalError | IntegrityError | OverflowError | EOFError

definition sqlite_int :: "int \<Rightarrow> bool" where
  "sqlite_int n \<longleftrightarrow> - (2 ^ 63) \<le> n \<and> n \<le> 2 ^ 63 - 1"

definition empty_db :: db where
  "empty_db = \<lparr>member_tbl = None, book_tbl = None, sale_tbl = None, sale_seq = 0\<rparr>"

subsection \<open>Statements\<close>

text \<open>\<open>CREATE TABLE IF NOT EXISTS\<close>, three times (lines 35 to 64).\<close>

definition create_if_not_exists :: "'a list option \<Rightarrow> 'a list option" where
  "create_if_not_exists t = (case t of None \<Rightarrow> Some [] | Some rows \<Rightarrow> Some rows)"

definition create_tables :: "db \<Rightarrow> db" where
  "create_tables d =
     d\<lparr>member_tbl := create_if_not_exists (member_tbl d),
       book_tbl := create_if_not_exists (book_tbl d),
       sale_tbl := create_if_not_exists (sale_tbl d)\<rparr>"

text \<open>\<open>INSERT INTO member VALUES (...)\<close> and \<open>INSERT INTO book VALUES (...)\<close>: the
  key column is a \<open>PRIMARY KEY\<close>. The values are literals of the script, so nothing is
  bound.\<close>

definition insert_member :: "member_row \<Rightarrow> db \<Rightarrow> exn + db" where
  "insert_member r d =
     (case member_tbl d of
        None \<Rightarrow> Inl OperationalError
      | Some rows \<Rightarrow>
          if m_mid r \<in> set (map m_mid rows) then Inl IntegrityError
          else Inr (d\<lparr>member_tbl := Some (rows @ [r])\<rparr>))"

definition insert_book :: "book_row \<Rightarrow> db \<Rightarrow> exn + db" where
  "insert_book r d =
     (case book_tbl d of
        None \<Rightarrow> Inl OperationalError
      | Some rows \<Rightarrow>
          if b_bid r \<in> set (map b_bid rows) then Inl IntegrityError
          else Inr (d\<lparr>book_tbl := Some (rows @ [r])\<rparr>))"

text \<open>
  \<open>INSERT INTO sale (sdate, mid, bid, sqty, sdiscount, stotal) VALUES (...)\<close>.
  The statement is prepared (the table must exist), its parameters are bound (each
  integer must fit 64 bits), then it runs: with \<open>AUTOINCREMENT\<close> the new \<open>sid\<close> is one
  more than the largest of \<open>sale_seq\<close> and the keys in the table, and the insertion
  fails when that largest value is already \<open>2^63 - 1\<close>. (The seed script writes the
  same statement with small literals, which pass the test of the bound values.) The
  foreign keys are declared
  but SQLite does not enforce them unless \<open>PRAGMA foreign_keys\<close> is set, which the
  program never does.
\<close>

definition top_rowid :: "db \<Rightarrow> sale_row list \<Rightarrow> int" where
  "top_rowid d rows = fold max (map s_sid rows) (sale_seq d)"

definition insert_sale :: "string \<Rightarrow> string \<Rightarrow> string \<Rightarrow> int \<Rightarrow> int \<Rightarrow> int \<Rightarrow> db \<Rightarrow> exn + db" where
  "insert_sale sdate mid bid sqty sdiscount stotal d =
     (case sale_tbl d of
        None \<Rightarrow> Inl OperationalError
      | Some rows \<Rightarrow>
          if \<not> (sqlite_int sqty \<and> sqlite_int sdiscount \<and> sqlite_int stotal) then Inl OverflowError
          else if top_rowid d rows \<ge> 2 ^ 63 - 1 then Inl OperationalError
          else
            let sid = top_rowid d rows + 1 in
            Inr (d\<lparr>sale_tbl := Some (rows @
                     [\<lparr>s_sid = sid, s_sdate = sdate, s_mid = mid, s_bid = bid,
                       s_sqty = sqty, s_sdiscount = sdiscount, s_stotal = stotal\<rparr>]),
                   sale_seq := sid\<rparr>))"

text \<open>\<open>UPDATE book SET bstock = bstock - ? WHERE bid = ?\<close> (lines 135 to 138), on
  the rows of the table. \<open>add_sale\<close> runs it with a quantity it has just bound for the
  \<open>INSERT\<close> and found between 1 and the stock, so the difference stays in range.\<close>

definition decrement_stock :: "int \<Rightarrow> string \<Rightarrow> book_row list \<Rightarrow> book_row list" where
  "decrement_stock sqty bid rows =
     map (\<lambda>b. if b_bid b = bid then b\<lparr>b_bstock := b_bstock b - sqty\<rparr> else b) rows"

text \<open>\<open>UPDATE sale SET sdiscount = ?, stotal = ? WHERE sid = ?\<close> (lines 262 to 265)
  and \<open>DELETE FROM sale WHERE sid = ?\<close> (line 314), on the rows of the table.\<close>

definition set_discount :: "int \<Rightarrow> int \<Rightarrow> int \<Rightarrow> sale_row list \<Rightarrow> sale_row list" where
  "set_discount new_discount stotal sid rows =
     map (\<lambda>s. if s_sid s = sid then s\<lparr>s_sdiscount := new_discount, s_stotal := stotal\<rparr> else s) rows"

definition delete_row :: "int \<Rightarrow> sale_row list \<Rightarrow> sale_row list" where
  "delete_row sid rows = filter (\<lambda>s. s_sid s \<noteq> sid) rows"

text \<open>
  \<open>executescript\<close> runs its statements one after the other, each committed as it
  ends; the first statement that raises stops the script and what ran before stays.
\<close>

fun executescript :: "(db \<Rightarrow> exn + db) list \<Rightarrow> db \<Rightarrow> (exn + unit) \<times> db" where
  "executescript [] d = (Inr (), d)"
| "executescript (st # sts) d =
     (case st d of Inl e \<Rightarrow> (Inl e, d) | Inr d' \<Rightarrow> executescript sts d')"

subsection \<open>initialize_db\<close>

definition seed_members :: "member_row list" where
  "seed_members =
     [\<lparr>m_mid = ''M001'', m_mname = ''Alice'', m_mphone = ''0912-345678'',
       m_memail = Some ''alice@example.com''\<rparr>,
      \<lparr>m_mid = ''M002'', m_mname = ''Bob'', m_mphone = ''0923-456789'',
       m_memail = Some ''bob@example.com''\<rparr>,
      \<lparr>m_mid = ''M003'', m_mname = ''Cathy'', m_mphone = ''0934-567890'',
       m_memail = Some ''cathy@example.com''\<rparr>]"

definition seed_books :: "book_row list" where
  "seed_books =
     [\<lparr>b_bid = ''B001'', b_btitle = ''Python Programming'', b_bprice = 600, b_bstock = 50\<rparr>,
      \<lparr>b_bid = ''B002'', b_btitle = ''Data Science Basics'', b_bprice = 800, b_bstock = 30\<rparr>,
      \<lparr>b_bid = ''B003'', b_btitle = ''Machine Learning Guide'', b_bprice = 1200, b_bstock = 20\<rparr>]"

text \<open>The four seed sales as the script writes them: date, member, book, quantity,
  discount and the literal total.\<close>

definition seed_sales :: "(string \<times> string \<times> string \<times> int \<times> int \<times> int) list" where
  "seed_sales =
     [(''2024-01-15'', ''M001'', ''B001'', 2, 100, 1100),
      (''2024-01-16'', ''M002'', ''B002'', 1, 50, 750),
      (''2024-01-17'', ''M001'', ''B003'', 3, 200, 3400),
      (''2024-01-18'', ''M003'', ''B001'', 1, 0, 600)]"

definition seed_script :: "(db \<Rightarrow> exn + db) list" where
  "seed_script =
     map insert_member seed_members @ map insert_book seed_books @
     map (\<lambda>(sdate, mid, bid, sqty, sdiscount, stotal).
            insert_sale sdate mid bid sqty sdiscount stotal) seed_sales"

text \<open>\<open>SELECT COUNT(*) FROM member\<close> (line 66).\<close>

definition count_member :: "db \<Rightarrow> exn + nat" where
  "count_member d = (case member_tbl d of None \<Rightarrow> Inl OperationalError | Some rows \<Rightarrow> Inr (length rows))"

definition initialize_db :: "db \<Rightarrow> (exn + unit) \<times> db" where
  "initialize_db d0 =
     (let d = create_tables d0 in
      case count_member d of
        Inl e \<Rightarrow> (Inl e, d)
      | Inr n \<Rightarrow> if n = 0 then executescript seed_script d else (Inr (), d))"

subsection \<open>add_sale\<close>

text \<open>
  The messages \<open>add_sale\<close> returns, one constructor for each string of the source;
  a constructor carries what the f-string interpolates.
\<close>

datatype message =
    Date_format
  | Qty_discount
  | No_member string
  | No_book string
  | Stock_short int
  | Sale_added int
  | Integrity_failure

definition add_sale ::
  "db \<Rightarrow> string \<Rightarrow> string \<Rightarrow> string \<Rightarrow> int \<Rightarrow> int \<Rightarrow> (exn + bool \<times> message) \<times> db" where
  "add_sale d sdate mid bid sqty sdiscount =
     (if length sdate \<noteq> 10 \<or> count_list sdate (CHR ''-'') \<noteq> 2 then (Inr (False, Date_format), d)
      else if sqty \<le> 0 \<or> sdiscount < 0 then (Inr (False, Qty_discount), d)
      else case member_tbl d of
        None \<Rightarrow> (Inl OperationalError, d)
      | Some members \<Rightarrow>
         (case find (\<lambda>m. m_mid m = mid) members of
            None \<Rightarrow> (Inr (False, No_member mid), d)
          | Some _ \<Rightarrow>
             (case book_tbl d of
                None \<Rightarrow> (Inl OperationalError, d)
              | Some books \<Rightarrow>
                 (case find (\<lambda>b. b_bid b = bid) books of
                    None \<Rightarrow> (Inr (False, No_book bid), d)
                  | Some book \<Rightarrow>
                      let bprice = b_bprice book; bstock = b_bstock book in
                      if sqty > bstock then (Inr (False, Stock_short bstock), d)
                      else
                        let stotal = (if bprice * sqty - sdiscount < 0 then 0
                                      else bprice * sqty - sdiscount) in
                        (case insert_sale sdate mid bid sqty sdiscount stotal d of
                           Inl IntegrityError \<Rightarrow> (Inr (False, Integrity_failure), d)
                         | Inl e \<Rightarrow> (Inl e, d)
                         | Inr d1 \<Rightarrow>
                             (Inr (True, Sale_added stotal),
                              d1\<lparr>book_tbl := Some (decrement_stock sqty bid books)\<rparr>))))))"

subsection \<open>Lines typed at a prompt\<close>

text \<open>
  \<open>update_sale\<close> and \<open>delete_sale\<close> read lines with \<open>input(...).strip()\<close> and parse
  them with \<open>int\<close>. A line is given as what these two calls make of it: the stripped
  text is empty (\<open>Blank\<close>), \<open>int\<close> raises \<open>ValueError\<close> on it (\<open>Garbage\<close>), or \<open>int\<close> returns
  a number. The lines still to be typed are a list; \<open>input\<close> on the empty list raises
  \<open>EOFError\<close>. What the functions print before their last message is not modelled.
\<close>

datatype line = Blank | Garbage | Number int

text \<open>
  The listing both functions start with (lines 206 to 212 and 279 to 285):
  \<open>SELECT s.sid, s.sdate, m.mname FROM sale s JOIN member m ON s.mid = m.mid ORDER BY s.sid\<close>.
\<close>

definition sale_listing :: "db \<Rightarrow> exn + (int \<times> string \<times> string) list" where
  "sale_listing d =
     (case sale_tbl d of
        None \<Rightarrow> Inl OperationalError
      | Some rows \<Rightarrow>
         (case member_tbl d of
            None \<Rightarrow> Inl OperationalError
          | Some members \<Rightarrow>
              Inr (concat (map (\<lambda>s. map (\<lambda>m. (s_sid s, s_sdate s, m_mname m))
                                        (filter (\<lambda>m. s_mid s = m_mid m) members))
                               (sort_key s_sid rows)))))"

subsection \<open>update_sale\<close>

text \<open>
  \<open>SELECT s.sqty, b.bprice FROM sale s JOIN book b ON s.bid = b.bid WHERE s.sid = ?\<close>
  followed by \<open>fetchone\<close> (lines 247 to 253).
\<close>

definition select_qty_price :: "int \<Rightarrow> sale_row list \<Rightarrow> book_row list \<Rightarrow> (int \<times> int) option" where
  "select_qty_price sid rows books =
     (case concat (map (\<lambda>s. map (\<lambda>b. (s_sqty s, b_bprice b))
                               (filter (\<lambda>b. s_bid s = b_bid b) books))
                      (filter (\<lambda>s. s_sid s = sid) rows)) of
        [] \<Rightarrow> None
      | data # _ \<Rightarrow> Some data)"

datatype update_report =
    No_sales_to_update
  | Update_cancelled
  | Choice_out_of_range
  | Choice_not_a_number
  | Discount_negative
  | Discount_not_an_integer
  | Sale_not_found
  | Sale_updated int int

definition update_sale :: "db \<Rightarrow> line list \<Rightarrow> (exn + update_report) \<times> db" where
  "update_sale d inp =
     (case sale_listing d of
        Inl e \<Rightarrow> (Inl e, d)
      | Inr sales \<Rightarrow>
          (if sales = [] then (Inr No_sales_to_update, d)
           else
             (case inp of
                [] \<Rightarrow> (Inl EOFError, d)
              | Blank # _ \<Rightarrow> (Inr Update_cancelled, d)
              | Garbage # _ \<Rightarrow> (Inr Choice_not_a_number, d)
              | Number idx # inp1 \<Rightarrow>
                  (if idx < 1 \<or> idx > int (length sales) then (Inr Choice_out_of_range, d)
                   else
                     (let sid = fst (sales ! nat (idx - 1)) in
                       (case inp1 of
                          [] \<Rightarrow> (Inl EOFError, d)
                        | Blank # _ \<Rightarrow> (Inr Discount_not_an_integer, d)
                        | Garbage # _ \<Rightarrow> (Inr Discount_not_an_integer, d)
                        | Number new_discount # _ \<Rightarrow>
                            (if new_discount < 0 then (Inr Discount_negative, d)
                             else
                               (case (sale_tbl d, book_tbl d) of
                                  (Some rows, Some books) \<Rightarrow>
                                    (case select_qty_price sid rows books of
                                       None \<Rightarrow> (Inr Sale_not_found, d)
                                     | Some (sqty, bprice) \<Rightarrow>
                                         (let stotal = max (bprice * sqty - new_discount) 0 in
                                           (if \<not> (sqlite_int new_discount \<and> sqlite_int stotal)
                                            then (Inl OverflowError, d)
                                            else (Inr (Sale_updated sid stotal),
                                                  d\<lparr>sale_tbl := Some
                                                     (set_discount new_discount stotal sid rows)\<rparr>))))
                                | _ \<Rightarrow> (Inl OperationalError, d)))))))))"

subsection \<open>delete_sale\<close>

text \<open>
  The \<open>while True\<close> loop of lines 296 to 309 over the lines still to be typed, for a
  listing of \<open>n\<close> sales: an empty line cancels (\<open>None\<close>), a line that is no number or a
  number outside \<open>1..n\<close> asks again, a number inside ends the loop. The recursion is on
  the list of lines, so the loop ends on every input: with \<open>EOFError\<close> when the lines
  run out.
\<close>

fun read_choice :: "nat \<Rightarrow> line list \<Rightarrow> exn + int option" where
  "read_choice n [] = Inl EOFError"
| "read_choice n (Blank # inp) = Inr None"
| "read_choice n (Garbage # inp) = read_choice n inp"
| "read_choice n (Number choice # inp) =
     (if choice < 1 \<or> choice > int n then read_choice n inp else Inr (Some choice))"

datatype delete_report = No_sales_to_delete | Delete_cancelled | Sale_deleted int

text \<open>
  The \<open>DELETE\<close> runs on a table the listing has just read, so the handler of
  \<open>sqlite3.Error\<close> (lines 317 and 318) has no case here. \<open>sale_seq\<close> stays as it is:
  a deletion does not touch \<open>sqlite_sequence\<close>.
\<close>

definition delete_sale :: "db \<Rightarrow> line list \<Rightarrow> (exn + delete_report) \<times> db" where
  "delete_sale d inp =
     (case sale_listing d of
        Inl e \<Rightarrow> (Inl e, d)
      | Inr sales \<Rightarrow>
          (if sales = [] then (Inr No_sales_to_delete, d)
           else
             (case read_choice (length sales) inp of
                Inl e \<Rightarrow> (Inl e, d)
              | Inr None \<Rightarrow> (Inr Delete_cancelled, d)
              | Inr (Some choice) \<Rightarrow>
                  (let sid_to_delete = fst (sales ! nat (choice - 1)) in
                    (Inr (Sale_deleted sid_to_delete),
                     d\<lparr>sale_tbl := map_option (delete_row sid_to_delete) (sale_tbl d)\<rparr>)))))"

subsection \<open>Runs of the program\<close>

text \<open>
  The states of the store the program can be in: \<open>main\<close> opens the store and calls
  \<open>initialize_db\<close>, at first on a store with no table, and then calls \<open>add_sale\<close>,
  \<open>update_sale\<close> and \<open>delete_sale\<close> as the menu is used.
\<close>

definition seeded_db :: db where
  "seeded_db = snd (initialize_db empty_db)"

inductive reachable :: "db \<Rightarrow> bool" where
  seeded: "reachable seeded_db"
| restart: "reachable d \<Longrightarrow> reachable (snd (initialize_db d))"
| added: "reachable d \<Longrightarrow> reachable (snd (add_sale d sdate mid bid sqty sdiscount))"
| updated: "reachable d \<Longrightarrow> reachable (snd (update_sale d inp))"
| deleted: "reachable d \<Longrightarrow> reachable (snd (delete_sale d inp))"

datatype op =
    Create string string string int int
  | Amend "line list"
  | Remove "line list"

fun apply_op :: "op \<Rightarrow> db \<Rightarrow> db" where
  "apply_op (Create sdate mid bid sqty sdiscount) d = snd (add_sale d sdate mid bid sqty sdiscount)"
| "apply_op (Amend inp) d = snd (update_sale d inp)"
| "apply_op (Remove inp) d = snd (delete_sale d inp)"

fun run :: "op list \<Rightarrow> db \<Rightarrow> db" where
  "run [] d = d"
| "run (x # xs) d = run xs (apply_op x d)"

subsection \<open>Reading the store\<close>

definition members_of :: "db \<Rightarrow> member_row list" where
  "members_of d = (case member_tbl d of None \<Rightarrow> [] | Some rows \<Rightarrow> rows)"

definition books_of :: "db \<Rightarrow> book_row list" where
  "books_of d = (case book_tbl d of None \<Rightarrow> [] | Some rows \<Rightarrow> rows)"

definition sales_of :: "db \<Rightarrow> sale_row list" where
  "sales_of d = (case sale_tbl d of None \<Rightarrow> [] | Some rows \<Rightarrow> rows)"

definition sale_ids :: "db \<Rightarrow> int list" where
  "sale_ids d = map s_sid (sales_of d)"

definition stock_of :: "db \<Rightarrow> string \<Rightarrow> int option" where
  "stock_of d bid = map_option b_bstock (find (\<lambda>b. b_bid b = bid) (books_of d))"

definition price_of :: "db \<Rightarrow> string \<Rightarrow> int option" where
  "price_of d bid = map_option b_bprice (find (\<lambda>b. b_bid b = bid) (books_of d))"

text \<open>The pricing formula of the engine.\<close>

definition formula_total :: "int \<Rightarrow> int \<Rightarrow> int \<Rightarrow> int" where
  "formula_total price qty discount = max (price * qty - discount) 0"

definition total_matches :: "db \<Rightarrow> sale_row \<Rightarrow> bool" where
  "total_matches d s \<longleftrightarrow>
     (case price_of d (s_bid s) of
        None \<Rightarrow> False
      | Some price \<Rightarrow> s_stotal s = formula_total price (s_sqty s) (s_sdiscount s))"

text \<open>
  What the schema and the engine keep true of a store: the three tables exist; the
  \<open>PRIMARY KEY\<close> columns hold no value twice; \<open>sale_seq\<close> is at least every \<open>sid\<close>
  in the table; every sale names a member and a book that exist; no stock is negative.
\<close>

definition consistent :: "db \<Rightarrow> bool" where
  "consistent d \<longleftrightarrow>
     member_tbl d \<noteq> None \<and> book_tbl d \<noteq> None \<and> sale_tbl d \<noteq> None \<and>
     distinct (map m_mid (members_of d)) \<and>
     distinct (map b_bid (books_of d)) \<and>
     distinct (sale_ids d) \<and>
     (\<forall>k \<in> set (sale_ids d). k \<le> sale_seq d) \<and>
     (\<forall>s \<in> set (sales_of d).
        s_mid s \<in> set (map m_mid (members_of d)) \<and> s_bid s \<in> set (map b_bid (books_of d))) \<and>
     (\<forall>b \<in> set (books_of d). 0 \<le> b_bstock b)"

text \<open>
  \<open>selects d idx sid\<close>: on the listing of store \<open>d\<close>, the number \<open>idx\<close> typed at the
  prompt is in range and \<open>sales[idx - 1]['sid']\<close> is \<open>sid\<close> (lines 230 to 233, 303 and
  311).
\<close>

definition selects :: "db \<Rightarrow> int \<Rightarrow> int \<Rightarrow> bool" where
  "selects d idx sid \<longleftrightarrow>
     (case sale_listing d of
        Inl e \<Rightarrow> False
      | Inr sales \<Rightarrow> \<not> (idx < 1 \<or> idx > int (length sales)) \<and> fst (sales ! nat (idx - 1)) = sid)"

section \<open>The seeded store\<close>

lemmas seed_defs = seed_members_def seed_books_def seed_sales_def

lemmas read_defs = members_of_def books_of_def sales_of_def sale_ids_def stock_of_def price_of_def

lemma seeded_db_eq:
  "seeded_db =
     \<lparr>member_tbl = Some seed_members, book_tbl = Some seed_books,
      sale_tbl = Some
        [\<lparr>s_sid = 1, s_sdate = ''2024-01-15'', s_mid = ''M001'', s_bid = ''B001'',
          s_sqty = 2, s_sdiscount = 100, s_stotal = 1100\<rparr>,
         \<lparr>s_sid = 2, s_sdate = ''2024-01-16'', s_mid = ''M002'', s_bid = ''B002'',
          s_sqty = 1, s_sdiscount = 50, s_stotal = 750\<rparr>,
         \<lparr>s_sid = 3, s_sdate = ''2024-01-17'', s_mid = ''M001'', s_bid = ''B003'',
          s_sqty = 3, s_sdiscount = 200, s_stotal = 3400\<rparr>,
         \<lparr>s_sid = 4, s_sdate = ''2024-01-18'', s_mid = ''M003'', s_bid = ''B001'',
          s_sqty = 1, s_sdiscount = 0, s_stotal = 600\<rparr>],
      sale_seq = 4\<rparr>"
  by (simp add: seeded_db_def initialize_db_def empty_db_def create_tables_def
      create_if_not_exists_def count_member_def seed_script_def seed_defs
      insert_member_def insert_book_def insert_sale_def top_rowid_def sqlite_int_def)

lemma initialize_empty: "initialize_db empty_db = (Inr (), seeded_db)"
  by (simp add: seeded_db_eq) (simp add: initialize_db_def empty_db_def create_tables_def
      create_if_not_exists_def count_member_def seed_script_def seed_defs
      insert_member_def insert_book_def insert_sale_def top_rowid_def sqlite_int_def)

lemma initialize_empty_tables:
  "initialize_db \<lparr>member_tbl = Some [], book_tbl = Some [], sale_tbl = Some [], sale_seq = 0\<rparr> =
     (Inr (), seeded_db)"
  by (simp add: seeded_db_eq) (simp add: initialize_db_def create_tables_def
      create_if_not_exists_def count_member_def seed_script_def seed_defs
      insert_member_def insert_book_def insert_sale_def top_rowid_def sqlite_int_def)

lemma initialize_seeded: "initialize_db seeded_db = (Inr (), seeded_db)"
  by (simp add: seeded_db_eq initialize_db_def create_tables_def
      create_if_not_exists_def count_member_def seed_members_def)

lemma consistent_seeded: "consistent seeded_db"
  by (simp add: consistent_def seeded_db_eq read_defs seed_defs)

text \<open>
  Claim C8. Run on the store with no table, or on the store whose three tables exist
  and are empty, \<open>initialize_db\<close> returns normally and leaves the seeded store; run
  again on the seeded store it returns the very same store: no table is created, no row
  is inserted, and the member, book and sale tables keep their 3, 3 and 4 rows.
\<close>

theorem initialize_db_idempotent:
  "initialize_db empty_db = (Inr (), seeded_db) \<and>
   initialize_db \<lparr>member_tbl = Some [], book_tbl = Some [], sale_tbl = Some [], sale_seq = 0\<rparr> =
     (Inr (), seeded_db) \<and>
   initialize_db seeded_db = (Inr (), seeded_db) \<and>
   length (members_of seeded_db) = 3 \<and> length (books_of seeded_db) = 3 \<and>
   length (sales_of seeded_db) = 4 \<and>
   length (members_of (snd (initialize_db seeded_db))) = length (members_of seeded_db) \<and>
   length (books_of (snd (initialize_db seeded_db))) = length (books_of seeded_db) \<and>
   length (sales_of (snd (initialize_db seeded_db))) = length (sales_of seeded_db)"
  by (simp add: initialize_empty initialize_seeded initialize_empty_tables)
    (simp add: seeded_db_eq read_defs seed_defs)

text \<open>
  Claim C9, as stated, fails: no seed sale has a literal total that differs from the
  engine's formula at the seed price of its book.
\<close>

theorem seed_total_mismatch_counterexample:
  "\<not> (\<exists>s \<in> set (sales_of seeded_db). \<not> total_matches seeded_db s)"
  by (simp add: seeded_db_eq read_defs seed_defs total_matches_def formula_total_def)

text \<open>
  Claim C9, amended. Each of the four seed sales stores the total the engine's formula
  gives at the seed price of its book; the row the spec cites (book \<open>B003\<close> at price
  1200, quantity 3, discount 200) stores 3400, which is \<open>max (1200 * 3 - 200) 0\<close>.
\<close>

theorem seed_totals_match:
  "list_all (total_matches seeded_db) (sales_of seeded_db) \<and>
   price_of seeded_db ''B003'' = Some 1200 \<and>
   map (\<lambda>s. (s_bid s, s_sqty s, s_sdiscount s, s_stotal s)) (sales_of seeded_db) ! 2 =
     (''B003'', 3, 200, 3400) \<and>
   formula_total 1200 3 200 = 3400"
  by (simp add: seeded_db_eq read_defs seed_defs total_matches_def formula_total_def)

section \<open>add_sale\<close>

lemma fold_max_ge_init: "(a::int) \<le> fold max xs a"
proof (induction xs arbitrary: a)
  case Nil
  show ?case by simp
next
  case (Cons x xs)
  have "a \<le> max x a" by simp
  also have "max x a \<le> fold max xs (max x a)" by (rule Cons.IH)
  finally show ?case by simp
qed

lemma fold_max_ge_elem: "x \<in> set xs \<Longrightarrow> (x::int) \<le> fold max xs a"
proof (induction xs arbitrary: a)
  case Nil
  then show ?case by simp
next
  case (Cons y ys)
  show ?case
  proof (cases "x = y")
    case True
    have "x \<le> max y a" using True by simp
    also have "max y a \<le> fold max ys (max y a)" by (rule fold_max_ge_init)
    finally show ?thesis by simp
  next
    case False
    with Cons.prems have "x \<in> set ys" by simp
    then show ?thesis using Cons.IH by simp
  qed
qed

lemma top_rowid_ge_seq: "sale_seq d \<le> top_rowid d rows"
  by (simp add: top_rowid_def fold_max_ge_init)

lemma top_rowid_ge_sid: "s \<in> set rows \<Longrightarrow> s_sid s \<le> top_rowid d rows"
  by (simp add: top_rowid_def fold_max_ge_elem)

lemma top_rowid_fresh: "top_rowid d rows + 1 \<notin> set (map s_sid rows)"
proof
  assume "top_rowid d rows + 1 \<in> set (map s_sid rows)"
  then obtain s where "s \<in> set rows" "s_sid s = top_rowid d rows + 1" by auto
  with top_rowid_ge_sid [of s rows d] show False by simp
qed

lemma find_decrement_stock:
  "find (\<lambda>b. b_bid b = bid) (decrement_stock sqty bid rows) =
   map_option (\<lambda>b. b\<lparr>b_bstock := b_bstock b - sqty\<rparr>) (find (\<lambda>b. b_bid b = bid) rows)"
  by (induction rows) (simp_all add: decrement_stock_def)

lemma members_of_find:
  "find P (members_of d) = Some m \<Longrightarrow> \<exists>rows. member_tbl d = Some rows \<and> find P rows = Some m"
  by (cases "member_tbl d") (simp_all add: members_of_def)

lemma books_of_find:
  "find P (books_of d) = Some b \<Longrightarrow> \<exists>rows. book_tbl d = Some rows \<and> find P rows = Some b"
  by (cases "book_tbl d") (simp_all add: books_of_def)

lemma add_sale_success:
  assumes date: "length sdate = 10" "count_list sdate (CHR ''-'') = 2"
    and bounds: "0 < sqty" "0 \<le> sdiscount"
    and mem: "member_tbl d = Some members" "find (\<lambda>m. m_mid m = mid) members = Some m"
    and book: "book_tbl d = Some books" "find (\<lambda>b. b_bid b = bid) books = Some book"
    and stock: "sqty \<le> b_bstock book"
    and sale: "sale_tbl d = Some rows"
    and fits: "sqlite_int sqty" "sqlite_int sdiscount"
      "sqlite_int (formula_total (b_bprice book) sqty sdiscount)"
    and key: "top_rowid d rows < 2 ^ 63 - 1"
  shows "add_sale d sdate mid bid sqty sdiscount =
     (Inr (True, Sale_added (formula_total (b_bprice book) sqty sdiscount)),
      d\<lparr>sale_tbl := Some (rows @
           [\<lparr>s_sid = top_rowid d rows + 1, s_sdate = sdate, s_mid = mid, s_bid = bid,
             s_sqty = sqty, s_sdiscount = sdiscount,
             s_stotal = formula_total (b_bprice book) sqty sdiscount\<rparr>]),
         sale_seq := top_rowid d rows + 1,
         book_tbl := Some (decrement_stock sqty bid books)\<rparr>)"
proof -
  let ?t = "formula_total (b_bprice book) sqty sdiscount"
  have ft: "?t = (if b_bprice book * sqty - sdiscount < 0 then 0 else b_bprice book * sqty - sdiscount)"
    by (simp add: formula_total_def max_def)
  have ins: "insert_sale sdate mid bid sqty sdiscount ?t d =
      Inr (d\<lparr>sale_tbl := Some (rows @
           [\<lparr>s_sid = top_rowid d rows + 1, s_sdate = sdate, s_mid = mid, s_bid = bid,
             s_sqty = sqty, s_sdiscount = sdiscount, s_stotal = ?t\<rparr>]),
         sale_seq := top_rowid d rows + 1\<rparr>)"
    using sale fits key by (simp add: insert_sale_def Let_def)
  have "add_sale d sdate mid bid sqty sdiscount =
      (case insert_sale sdate mid bid sqty sdiscount ?t d of
         Inl IntegrityError \<Rightarrow> (Inr (False, Integrity_failure), d)
       | Inl e \<Rightarrow> (Inl e, d)
       | Inr d1 \<Rightarrow> (Inr (True, Sale_added ?t),
                    d1\<lparr>book_tbl := Some (decrement_stock sqty bid books)\<rparr>))"
    unfolding add_sale_def ft using date bounds mem book stock
    by (simp add: Let_def)
  then show ?thesis by (simp add: ins)
qed

text \<open>
  Claim C1, amended. A call of \<open>add_sale\<close> that passes the five checks, on a store
  whose sale table exists, succeeds whenever the quantity, the discount and the computed
  total fit the signed 64-bit \<open>INTEGER\<close> of SQLite and the next \<open>sid\<close> is still
  available: the message carries the total \<open>max (price * quantity - discount) 0\<close>, the
  stock of the book is its stock before minus the quantity, and the sale table is the
  old one followed by one row with a \<open>sid\<close> not in use, the given fields and that total.
\<close>

theorem add_sale_valid:
  assumes date: "length sdate = 10" "count_list sdate (CHR ''-'') = 2"
    and bounds: "0 < sqty" "0 \<le> sdiscount"
    and mem: "find (\<lambda>m. m_mid m = mid) (members_of d) = Some m"
    and book: "find (\<lambda>b. b_bid b = bid) (books_of d) = Some book"
    and stock: "sqty \<le> b_bstock book"
    and sale: "sale_tbl d = Some rows"
    and fits: "sqlite_int sqty" "sqlite_int sdiscount"
      "sqlite_int (formula_total (b_bprice book) sqty sdiscount)"
    and key: "top_rowid d rows < 2 ^ 63 - 1"
  shows "fst (add_sale d sdate mid bid sqty sdiscount) =
           Inr (True, Sale_added (formula_total (b_bprice book) sqty sdiscount)) \<and>
         stock_of (snd (add_sale d sdate mid bid sqty sdiscount)) bid = Some (b_bstock book - sqty) \<and>
         sales_of (snd (add_sale d sdate mid bid sqty sdiscount)) =
           rows @ [\<lparr>s_sid = top_rowid d rows + 1, s_sdate = sdate, s_mid = mid, s_bid = bid,
                    s_sqty = sqty, s_sdiscount = sdiscount,
                    s_stotal = formula_total (b_bprice book) sqty sdiscount\<rparr>] \<and>
         top_rowid d rows + 1 \<notin> set (map s_sid rows)"
proof -
  obtain members where m: "member_tbl d = Some members" "find (\<lambda>m. m_mid m = mid) members = Some m"
    using members_of_find [OF mem] by blast
  obtain books where b: "book_tbl d = Some books" "find (\<lambda>b. b_bid b = bid) books = Some book"
    using books_of_find [OF book] by blast
  note eq = add_sale_success [OF date bounds m b stock sale fits key]
  show ?thesis
    using top_rowid_fresh [of d rows]
    by (simp add: eq stock_of_def books_of_def sales_of_def find_decrement_stock b)
qed

text \<open>The example of the spec: two copies of \<open>B001\<close> (price 600, stock 50) at a
  discount of 100 on the seeded store give the total 1100 and leave 48 in stock.\<close>

theorem add_sale_valid_witness:
  "fst (add_sale seeded_db ''2024-02-01'' ''M001'' ''B001'' 2 100) = Inr (True, Sale_added 1100) \<and>
   stock_of seeded_db ''B001'' = Some 50 \<and>
   stock_of (snd (add_sale seeded_db ''2024-02-01'' ''M001'' ''B001'' 2 100)) ''B001'' = Some 48 \<and>
   map s_sid (sales_of (snd (add_sale seeded_db ''2024-02-01'' ''M001'' ''B001'' 2 100))) = [1, 2, 3, 4, 5]"
  using add_sale_valid [of "''2024-02-01''" 2 100 "''M001''" seeded_db "hd seed_members"
      "''B001''" "hd seed_books" "sales_of seeded_db"]
  by (simp add: seeded_db_eq read_defs seed_defs sqlite_int_def formula_total_def top_rowid_def)

text \<open>
  Claim C1, as stated, fails. On the seeded store the call below passes every check
  (date shape, quantity 2 > 0, discount \<open>2^63\<close> \<ge> 0, member \<open>M001\<close> and book \<open>B001\<close>
  exist, 2 \<le> 50 in stock), but the discount does not fit an \<open>INTEGER\<close>: binding it
  for the \<open>INSERT\<close> raises \<open>OverflowError\<close>, which \<open>add_sale\<close> does not catch (it
  handles \<open>sqlite3.IntegrityError\<close> only). Nothing is written.
\<close>

theorem add_sale_overflow_counterexample:
  "length ''2024-02-01'' = 10 \<and> count_list ''2024-02-01'' (CHR ''-'') = 2 \<and>
   (0::int) < 2 \<and> (0::int) \<le> 2 ^ 63 \<and>
   find (\<lambda>m. m_mid m = ''M001'') (members_of seeded_db) \<noteq> None \<and>
   stock_of seeded_db ''B001'' = Some 50 \<and> (2::int) \<le> 50 \<and>
   add_sale seeded_db ''2024-02-01'' ''M001'' ''B001'' 2 (2 ^ 63) = (Inl OverflowError, seeded_db)"
  by (simp add: seeded_db_eq read_defs seed_defs add_sale_def insert_sale_def sqlite_int_def)

text \<open>
  Claim C2. \<open>add_sale\<close> checks the date shape, then the bounds of quantity and
  discount, then the member, then the book, then the stock, and returns the message of
  the first check that fails together with the store it was given. Each line below
  holds whatever the later checks would say: a malformed date is reported on any
  store, even one without tables, where a later look-up would raise. A call that does
  not return success leaves the whole store as it was.
\<close>

theorem add_sale_check_order:
  "(length sdate \<noteq> 10 \<or> count_list sdate (CHR ''-'') \<noteq> 2 \<longrightarrow>
      add_sale d sdate mid bid sqty sdiscount = (Inr (False, Date_format), d)) \<and>
   (length sdate = 10 \<and> count_list sdate (CHR ''-'') = 2 \<and> (sqty \<le> 0 \<or> sdiscount < 0) \<longrightarrow>
      add_sale d sdate mid bid sqty sdiscount = (Inr (False, Qty_discount), d)) \<and>
   (length sdate = 10 \<and> count_list sdate (CHR ''-'') = 2 \<and> 0 < sqty \<and> 0 \<le> sdiscount \<and>
    member_tbl d = Some members \<and> find (\<lambda>m. m_mid m = mid) members = None \<longrightarrow>
      add_sale d sdate mid bid sqty sdiscount = (Inr (False, No_member mid), d)) \<and>
   (length sdate = 10 \<and> count_list sdate (CHR ''-'') = 2 \<and> 0 < sqty \<and> 0 \<le> sdiscount \<and>
    member_tbl d = Some members \<and> find (\<lambda>m. m_mid m = mid) members = Some m \<and>
    book_tbl d = Some books \<and> find (\<lambda>b. b_bid b = bid) books = None \<longrightarrow>
      add_sale d sdate mid bid sqty sdiscount = (Inr (False, No_book bid), d)) \<and>
   (length sdate = 10 \<and> count_list sdate (CHR ''-'') = 2 \<and> 0 < sqty \<and> 0 \<le> sdiscount \<and>
    member_tbl d = Some members \<and> find (\<lambda>m. m_mid m = mid) members = Some m \<and>
    book_tbl d = Some books \<and> find (\<lambda>b. b_bid b = bid) books = Some book \<and>
    b_bstock book < sqty \<longrightarrow>
      add_sale d sdate mid bid sqty sdiscount = (Inr (False, Stock_short (b_bstock book)), d)) \<and>
   ((\<forall>stotal. fst (add_sale d sdate mid bid sqty sdiscount) \<noteq> Inr (True, Sale_added stotal)) \<longrightarrow>
      snd (add_sale d sdate mid bid sqty sdiscount) = d)"
proof (intro conjI impI)
  assume "\<forall>stotal. fst (add_sale d sdate mid bid sqty sdiscount) \<noteq> Inr (True, Sale_added stotal)"
  then show "snd (add_sale d sdate mid bid sqty sdiscount) = d"
    by (auto simp: add_sale_def Let_def split: if_splits option.splits sum.splits exn.splits)
qed (simp_all add: add_sale_def)

text \<open>One call for each check: every later check of the call would fail too.\<close>

theorem add_sale_check_order_witness:
  "add_sale empty_db ''20240201'' ''M999'' ''B999'' 0 (- 1) = (Inr (False, Date_format), empty_db) \<and>
   add_sale seeded_db ''2024-02-01'' ''M999'' ''B999'' 0 5 = (Inr (False, Qty_discount), seeded_db) \<and>
   add_sale seeded_db ''2024-02-01'' ''M999'' ''B999'' 999 0 = (Inr (False, No_member ''M999''), seeded_db) \<and>
   add_sale seeded_db ''2024-02-01'' ''M001'' ''B999'' 999 0 = (Inr (False, No_book ''B999''), seeded_db) \<and>
   add_sale seeded_db ''2024-02-01'' ''M001'' ''B003'' 999 0 = (Inr (False, Stock_short 20), seeded_db)"
  using add_sale_check_order [of "''20240201''" empty_db "''M999''" "''B999''" 0 "- 1"]
    add_sale_check_order [of "''2024-02-01''" seeded_db "''M999''" "''B999''" 0 5]
    add_sale_check_order [of "''2024-02-01''" seeded_db "''M999''" "''B999''" 999 0 seed_members]
    add_sale_check_order [of "''2024-02-01''" seeded_db "''M001''" "''B999''" 999 0 seed_members
      "hd seed_members" seed_books]
    add_sale_check_order [of "''2024-02-01''" seeded_db "''M001''" "''B003''" 999 0 seed_members
      "hd seed_members" seed_books "seed_books ! 2"]
  by (simp add: seeded_db_eq seed_defs)

text \<open>
  Claim C3. When the date shape, the bounds, the member and the book pass and the
  quantity exceeds the stock of the book, \<open>add_sale\<close> returns failure with the
  insufficient-stock message, which carries the current stock; the store is returned
  as it was, so the stock of the book and the sale rows are unchanged.
\<close>

theorem add_sale_insufficient_stock:
  assumes "length sdate = 10" "count_list sdate (CHR ''-'') = 2"
    and "0 < sqty" "0 \<le> sdiscount"
    and mem: "find (\<lambda>m. m_mid m = mid) (members_of d) = Some m"
    and book: "find (\<lambda>b. b_bid b = bid) (books_of d) = Some book"
    and "b_bstock book < sqty"
  shows "add_sale d sdate mid bid sqty sdiscount = (Inr (False, Stock_short (b_bstock book)), d) \<and>
         stock_of (snd (add_sale d sdate mid bid sqty sdiscount)) bid = Some (b_bstock book) \<and>
         sales_of (snd (add_sale d sdate mid bid sqty sdiscount)) = sales_of d"
proof -
  obtain members where m: "member_tbl d = Some members" "find (\<lambda>m. m_mid m = mid) members = Some m"
    using members_of_find [OF mem] by blast
  obtain books where b: "book_tbl d = Some books" "find (\<lambda>b. b_bid b = bid) books = Some book"
    using books_of_find [OF book] by blast
  have "add_sale d sdate mid bid sqty sdiscount = (Inr (False, Stock_short (b_bstock book)), d)"
    using assms(1-4,7) m b by (simp add: add_sale_def)
  then show ?thesis using book by (simp add: stock_of_def)
qed

text \<open>The example of the spec: 999 copies of \<open>B003\<close>, of which 20 are in stock.\<close>

theorem add_sale_insufficient_stock_witness:
  "add_sale seeded_db ''2024-02-01'' ''M001'' ''B003'' 999 0 = (Inr (False, Stock_short 20), seeded_db) \<and>
   stock_of (snd (add_sale seeded_db ''2024-02-01'' ''M001'' ''B003'' 999 0)) ''B003'' = Some 20 \<and>
   length (sales_of (snd (add_sale seeded_db ''2024-02-01'' ''M001'' ''B003'' 999 0))) = 4"
  using add_sale_insufficient_stock [of "''2024-02-01''" 999 0 "''M001''" seeded_db "hd seed_members"
      "''B003''" "seed_books ! 2"]
  by (simp add: seeded_db_eq read_defs seed_defs)

section \<open>What each operation changes\<close>

lemma find_SomeD: "find P xs = Some x \<Longrightarrow> x \<in> set xs \<and> P x"
  by (induction xs) (auto split: if_splits)

lemma distinct_key_eq:
  "distinct (map f xs) \<Longrightarrow> x \<in> set xs \<Longrightarrow> y \<in> set xs \<Longrightarrow> f x = f y \<Longrightarrow> x = y"
  by (auto simp: distinct_map dest: inj_onD)

lemma filter_key_single:
  "distinct (map f xs) \<Longrightarrow> x \<in> set xs \<Longrightarrow> filter (\<lambda>y. f y = f x) xs = [x]"
proof (induction xs)
  case Nil
  then show ?case by simp
next
  case (Cons y ys)
  show ?case
  proof (cases "y = x")
    case True
    have "f x \<notin> f ` set ys" using Cons.prems(1) True by simp
    then have "\<forall>z \<in> set ys. f z \<noteq> f x" by (metis imageI)
    then have "filter (\<lambda>y. f y = f x) ys = []" by (simp add: filter_empty_conv)
    with True show ?thesis by simp
  next
    case False
    with Cons.prems have "x \<in> set ys" by simp
    moreover from this Cons.prems(1) have "f y \<noteq> f x" by (simp add: image_iff)
    ultimately show ?thesis using Cons by simp
  qed
qed

lemma filter_key_remove1:
  "distinct (map f xs) \<Longrightarrow> x \<in> set xs \<Longrightarrow> filter (\<lambda>y. f y \<noteq> f x) xs = remove1 x xs"
proof (induction xs)
  case Nil
  then show ?case by simp
next
  case (Cons y ys)
  show ?case
  proof (cases "y = x")
    case True
    have "f x \<notin> f ` set ys" using Cons.prems(1) True by simp
    then have "\<forall>z \<in> set ys. f z \<noteq> f x" by (metis imageI)
    then have "filter (\<lambda>y. f y \<noteq> f x) ys = ys" by (simp add: filter_id_conv)
    with True show ?thesis by simp
  next
    case False
    with Cons.prems have "x \<in> set ys" by simp
    moreover from this Cons.prems(1) have "f y \<noteq> f x" by (simp add: image_iff)
    ultimately show ?thesis using Cons False by simp
  qed
qed

lemma map_sid_set_discount: "map s_sid (set_discount nd t k rows) = map s_sid rows"
  by (induction rows) (simp_all add: set_discount_def)

lemma refs_set_discount:
  "r \<in> set (set_discount nd t k rows) \<Longrightarrow> \<exists>s \<in> set rows. s_mid r = s_mid s \<and> s_bid r = s_bid s"
  by (auto simp: set_discount_def split: if_splits)

lemma map_bid_decrement: "map b_bid (decrement_stock q bid books) = map b_bid books"
  by (induction books) (simp_all add: decrement_stock_def)

lemma add_sale_checked:
  assumes "length sdate = 10" "count_list sdate (CHR ''-'') = 2" "0 < sqty" "0 \<le> sdiscount"
    and "member_tbl d = Some members" "find (\<lambda>m. m_mid m = mid) members = Some m"
    and "book_tbl d = Some books" "find (\<lambda>b. b_bid b = bid) books = Some book"
    and "sqty \<le> b_bstock book"
  shows "add_sale d sdate mid bid sqty sdiscount =
      (case insert_sale sdate mid bid sqty sdiscount
              (formula_total (b_bprice book) sqty sdiscount) d of
         Inl IntegrityError \<Rightarrow> (Inr (False, Integrity_failure), d)
       | Inl e \<Rightarrow> (Inl e, d)
       | Inr d1 \<Rightarrow> (Inr (True, Sale_added (formula_total (b_bprice book) sqty sdiscount)),
                    d1\<lparr>book_tbl := Some (decrement_stock sqty bid books)\<rparr>))"
proof -
  have ft: "formula_total (b_bprice book) sqty sdiscount =
      (if b_bprice book * sqty - sdiscount < 0 then 0 else b_bprice book * sqty - sdiscount)"
    by (simp add: formula_total_def max_def)
  show ?thesis
    unfolding add_sale_def ft using assms by (simp add: Let_def)
qed

lemma insert_sale_Inr:
  "insert_sale sdate mid bid sqty sdiscount stotal d = Inr d1 \<Longrightarrow>
   \<exists>rows. sale_tbl d = Some rows \<and>
     d1 = d\<lparr>sale_tbl := Some (rows @
             [\<lparr>s_sid = top_rowid d rows + 1, s_sdate = sdate, s_mid = mid, s_bid = bid,
               s_sqty = sqty, s_sdiscount = sdiscount, s_stotal = stotal\<rparr>]),
           sale_seq := top_rowid d rows + 1\<rparr>"
  by (cases "sale_tbl d") (simp_all add: insert_sale_def Let_def split: if_splits)

lemma add_sale_cases:
  "snd (add_sale d sdate mid bid sqty sdiscount) = d \<or>
   (\<exists>members m books book rows stotal.
      member_tbl d = Some members \<and> find (\<lambda>m. m_mid m = mid) members = Some m \<and>
      book_tbl d = Some books \<and> find (\<lambda>b. b_bid b = bid) books = Some book \<and>
      0 < sqty \<and> sqty \<le> b_bstock book \<and> sale_tbl d = Some rows \<and>
      snd (add_sale d sdate mid bid sqty sdiscount) =
        d\<lparr>sale_tbl := Some (rows @
             [\<lparr>s_sid = top_rowid d rows + 1, s_sdate = sdate, s_mid = mid, s_bid = bid,
               s_sqty = sqty, s_sdiscount = sdiscount, s_stotal = stotal\<rparr>]),
           sale_seq := top_rowid d rows + 1,
           book_tbl := Some (decrement_stock sqty bid books)\<rparr>)"
proof (cases "length sdate \<noteq> 10 \<or> count_list sdate (CHR ''-'') \<noteq> 2 \<or> sqty \<le> 0 \<or> sdiscount < 0")
  case True
  then have "snd (add_sale d sdate mid bid sqty sdiscount) = d"
    by (auto simp: add_sale_def)
  then show ?thesis ..
next
  case pre: False
  show ?thesis
  proof (cases "member_tbl d")
    case None
    with pre have "snd (add_sale d sdate mid bid sqty sdiscount) = d" by (simp add: add_sale_def)
    then show ?thesis ..
  next
    case mt: (Some members)
    show ?thesis
    proof (cases "find (\<lambda>m. m_mid m = mid) members")
      case None
      with pre mt have "snd (add_sale d sdate mid bid sqty sdiscount) = d"
        by (simp add: add_sale_def)
      then show ?thesis ..
    next
      case mf: (Some m)
      show ?thesis
      proof (cases "book_tbl d")
        case None
        with pre mt mf have "snd (add_sale d sdate mid bid sqty sdiscount) = d"
          by (simp add: add_sale_def)
        then show ?thesis ..
      next
        case bt: (Some books)
        show ?thesis
        proof (cases "find (\<lambda>b. b_bid b = bid) books")
          case None
          with pre mt mf bt have "snd (add_sale d sdate mid bid sqty sdiscount) = d"
            by (simp add: add_sale_def)
          then show ?thesis ..
        next
          case bf: (Some book)
          show ?thesis
          proof (cases "sqty \<le> b_bstock book")
            case False
            with pre mt mf bt bf have "snd (add_sale d sdate mid bid sqty sdiscount) = d"
              by (simp add: add_sale_def)
            then show ?thesis ..
          next
            case st: True
            from pre have p: "length sdate = 10" "count_list sdate (CHR ''-'') = 2"
              "0 < sqty" "0 \<le> sdiscount" by auto
            note eq = add_sale_checked [OF p mt mf bt bf st]
            let ?t = "formula_total (b_bprice book) sqty sdiscount"
            show ?thesis
            proof (cases "insert_sale sdate mid bid sqty sdiscount ?t d")
              case (Inl e)
              then have "snd (add_sale d sdate mid bid sqty sdiscount) = d"
                by (cases e) (simp_all add: eq)
              then show ?thesis ..
            next
              case (Inr d1)
              from insert_sale_Inr [OF Inr] obtain rows where
                r: "sale_tbl d = Some rows" and
                d1: "d1 = d\<lparr>sale_tbl := Some (rows @
                   [\<lparr>s_sid = top_rowid d rows + 1, s_sdate = sdate, s_mid = mid, s_bid = bid,
                     s_sqty = sqty, s_sdiscount = sdiscount, s_stotal = ?t\<rparr>]),
                   sale_seq := top_rowid d rows + 1\<rparr>" by blast
              have "snd (add_sale d sdate mid bid sqty sdiscount) =
                  d\<lparr>sale_tbl := Some (rows @
                   [\<lparr>s_sid = top_rowid d rows + 1, s_sdate = sdate, s_mid = mid, s_bid = bid,
                     s_sqty = sqty, s_sdiscount = sdiscount, s_stotal = ?t\<rparr>]),
                   sale_seq := top_rowid d rows + 1,
                   book_tbl := Some (decrement_stock sqty bid books)\<rparr>"
                by (simp add: eq Inr d1)
              with mt mf bt bf p(3) st r show ?thesis by blast
            qed
          qed
        qed
      qed
    qed
  qed
qed

lemma update_sale_cases:
  "snd (update_sale d inp) = d \<or>
   (\<exists>rows new_discount stotal sid.
      sale_tbl d = Some rows \<and>
      snd (update_sale d inp) = d\<lparr>sale_tbl := Some (set_discount new_discount stotal sid rows)\<rparr>)"
  by (auto simp: update_sale_def Let_def
      split: if_splits option.splits sum.splits list.splits line.splits prod.splits)

lemma delete_sale_cases:
  "snd (delete_sale d inp) = d \<or>
   (\<exists>rows sid.
      sale_tbl d = Some rows \<and>
      snd (delete_sale d inp) = d\<lparr>sale_tbl := Some (delete_row sid rows)\<rparr>)"
  by (auto simp: delete_sale_def sale_listing_def Let_def
      split: if_splits option.splits sum.splits)

section \<open>Consistency is kept\<close>

lemma consistent_add_sale:
  assumes c: "consistent d"
  shows "consistent (snd (add_sale d sdate mid bid sqty sdiscount))"
proof -
  from add_sale_cases [of d sdate mid bid sqty sdiscount]
  consider "snd (add_sale d sdate mid bid sqty sdiscount) = d"
    | members m books book rows stotal where
      "member_tbl d = Some members" "find (\<lambda>m. m_mid m = mid) members = Some m"
      "book_tbl d = Some books" "find (\<lambda>b. b_bid b = bid) books = Some book"
      "0 < sqty" "sqty \<le> b_bstock book" "sale_tbl d = Some rows"
      "snd (add_sale d sdate mid bid sqty sdiscount) =
        d\<lparr>sale_tbl := Some (rows @
             [\<lparr>s_sid = top_rowid d rows + 1, s_sdate = sdate, s_mid = mid, s_bid = bid,
               s_sqty = sqty, s_sdiscount = sdiscount, s_stotal = stotal\<rparr>]),
           sale_seq := top_rowid d rows + 1,
           book_tbl := Some (decrement_stock sqty bid books)\<rparr>"
    by blast
  then show ?thesis
  proof cases
    case 1
    with c show ?thesis by simp
  next
    case 2
    let ?d' = "snd (add_sale d sdate mid bid sqty sdiscount)"
    from c 2(1,3,7) have
      dm: "distinct (map m_mid members)" and db: "distinct (map b_bid books)" and
      ds: "distinct (map s_sid rows)" and
      sq: "\<forall>s \<in> set rows. s_sid s \<le> sale_seq d" and
      rf: "\<forall>s \<in> set rows. s_mid s \<in> m_mid ` set members \<and> s_bid s \<in> b_bid ` set books" and
      st: "\<forall>b \<in> set books. 0 \<le> b_bstock b"
      by (simp_all add: consistent_def read_defs)
    from find_SomeD [OF 2(2)] have m: "mid \<in> m_mid ` set members" by force
    from find_SomeD [OF 2(4)] have bk: "book \<in> set books" "b_bid book = bid" by simp_all
    let ?row = "\<lparr>s_sid = top_rowid d rows + 1, s_sdate = sdate, s_mid = mid, s_bid = bid,
               s_sqty = sqty, s_sdiscount = sdiscount, s_stotal = stotal\<rparr>"
    have ex: "member_tbl ?d' \<noteq> None" "book_tbl ?d' \<noteq> None" "sale_tbl ?d' \<noteq> None"
      by (simp_all add: 2)
    have tabs: "members_of ?d' = members" "books_of ?d' = decrement_stock sqty bid books"
      "sale_seq ?d' = top_rowid d rows + 1" "sales_of ?d' = rows @ [?row]"
      by (simp_all add: 2 read_defs)
    have bids: "b_bid ` set (decrement_stock sqty bid books) = b_bid ` set books"
      using map_bid_decrement [of sqty bid books] by (metis set_map)
    have d1: "distinct (map s_sid (rows @ [?row]))"
      using ds top_rowid_fresh [of d rows] by simp
    have d2: "\<forall>k \<in> set (map s_sid (rows @ [?row])). k \<le> top_rowid d rows + 1"
      using top_rowid_ge_sid [of _ rows d] by fastforce
    have d3: "\<forall>s \<in> set (rows @ [?row]). s_mid s \<in> set (map m_mid members) \<and>
        s_bid s \<in> set (map b_bid (decrement_stock sqty bid books))"
      using rf m bk by (auto simp: bids)
    have d4: "\<forall>b \<in> set (decrement_stock sqty bid books). 0 \<le> b_bstock b"
    proof
      fix b' assume "b' \<in> set (decrement_stock sqty bid books)"
      then obtain b where b: "b \<in> set books"
        "b' = (if b_bid b = bid then b\<lparr>b_bstock := b_bstock b - sqty\<rparr> else b)"
        by (auto simp: decrement_stock_def)
      show "0 \<le> b_bstock b'"
      proof (cases "b_bid b = bid")
        case True
        with distinct_key_eq [OF db b(1) bk(1)] bk(2) have "b = book" by simp
        with True b(2) 2(6) show ?thesis by simp
      next
        case False
        with b st show ?thesis by simp
      qed
    qed
    have d5: "distinct (map b_bid (decrement_stock sqty bid books))"
      using db by (simp add: map_bid_decrement)
    show ?thesis
      unfolding consistent_def sale_ids_def tabs
      using ex dm d1 d2 d3 d4 d5 by blast
  qed
qed

lemma consistent_update_sale:
  assumes c: "consistent d"
  shows "consistent (snd (update_sale d inp))"
proof -
  from update_sale_cases [of d inp]
  consider "snd (update_sale d inp) = d"
    | rows nd t k where "sale_tbl d = Some rows"
      "snd (update_sale d inp) = d\<lparr>sale_tbl := Some (set_discount nd t k rows)\<rparr>"
    by blast
  then show ?thesis
  proof cases
    case 1
    with c show ?thesis by simp
  next
    case 2
    have "\<forall>r \<in> set (set_discount nd t k rows).
        s_mid r \<in> set (map m_mid (members_of d)) \<and> s_bid r \<in> set (map b_bid (books_of d))"
    proof
      fix r assume "r \<in> set (set_discount nd t k rows)"
      from refs_set_discount [OF this] obtain s where
        "s \<in> set rows" "s_mid r = s_mid s" "s_bid r = s_bid s" by blast
      with c 2(1) show "s_mid r \<in> set (map m_mid (members_of d)) \<and> s_bid r \<in> set (map b_bid (books_of d))"
        by (simp add: consistent_def sales_of_def)
    qed
    with c 2(1) show ?thesis
      by (simp add: 2(2) consistent_def read_defs map_sid_set_discount)
  qed
qed

lemma consistent_delete_sale:
  assumes c: "consistent d"
  shows "consistent (snd (delete_sale d inp))"
proof -
  from delete_sale_cases [of d inp]
  consider "snd (delete_sale d inp) = d"
    | rows k where "sale_tbl d = Some rows"
      "snd (delete_sale d inp) = d\<lparr>sale_tbl := Some (delete_row k rows)\<rparr>"
    by blast
  then show ?thesis
  proof cases
    case 1
    with c show ?thesis by simp
  next
    case 2
    with c show ?thesis
      by (simp add: consistent_def read_defs delete_row_def distinct_map_filter)
  qed
qed

lemma initialize_db_skip:
  assumes "member_tbl d = Some members" "members \<noteq> []"
  shows "initialize_db d = (Inr (), create_tables d)"
  using assms
  by (simp add: initialize_db_def create_tables_def create_if_not_exists_def count_member_def)

lemma create_tables_id:
  assumes "member_tbl d \<noteq> None" "book_tbl d \<noteq> None" "sale_tbl d \<noteq> None"
  shows "create_tables d = d"
  using assms by (auto simp: create_tables_def create_if_not_exists_def)

lemma members_of_add_sale: "members_of (snd (add_sale d sdate mid bid sqty sdiscount)) = members_of d"
  using add_sale_cases [of d sdate mid bid sqty sdiscount] by (auto simp: members_of_def)

lemma members_of_update_sale: "members_of (snd (update_sale d inp)) = members_of d"
  using update_sale_cases [of d inp] by (auto simp: members_of_def)

lemma members_of_delete_sale: "members_of (snd (delete_sale d inp)) = members_of d"
  using delete_sale_cases [of d inp] by (auto simp: members_of_def)

text \<open>
  Every store the program reaches is consistent and has a member, so the theorems
  below that assume a consistent store hold in every run of the program.
\<close>

lemma reachable_invariant: "reachable d \<Longrightarrow> consistent d \<and> members_of d \<noteq> []"
proof (induction rule: reachable.induct)
  case seeded
  show ?case using consistent_seeded by (simp add: seeded_db_eq members_of_def seed_members_def)
next
  case (restart d)
  then obtain members where "member_tbl d = Some members" "members \<noteq> []"
    by (cases "member_tbl d") (simp_all add: members_of_def)
  from initialize_db_skip [OF this] restart show ?case
    by (simp add: create_tables_id consistent_def)
next
  case (added d sdate mid bid sqty sdiscount)
  then show ?case by (simp add: consistent_add_sale members_of_add_sale)
next
  case (updated d inp)
  then show ?case by (simp add: consistent_update_sale members_of_update_sale)
next
  case (deleted d inp)
  then show ?case by (simp add: consistent_delete_sale members_of_delete_sale)
qed

text \<open>
  Claim C5. In every store the program reaches from the seeded store by \<open>add_sale\<close>,
  \<open>update_sale\<close>, \<open>delete_sale\<close> and restarts, the stock of every book is at
  least 0; in particular the store \<open>add_sale\<close> leaves, whatever its arguments, has
  no negative stock.
\<close>

theorem stock_never_negative:
  assumes "reachable d"
  shows "(\<forall>b \<in> set (books_of d). 0 \<le> b_bstock b) \<and>
         (\<forall>b \<in> set (books_of (snd (add_sale d sdate mid bid sqty sdiscount))). 0 \<le> b_bstock b)"
proof -
  from assms have "reachable (snd (add_sale d sdate mid bid sqty sdiscount))"
    by (rule reachable.added)
  with assms show ?thesis
    using reachable_invariant by (simp add: consistent_def)
qed

text \<open>Selling all 20 copies of \<open>B003\<close> leaves a stock of 0, and the next sale of
  that book is refused.\<close>

theorem stock_never_negative_witness:
  "reachable (snd (add_sale seeded_db ''2024-02-01'' ''M001'' ''B003'' 20 0)) \<and>
   map b_bstock (books_of (snd (add_sale seeded_db ''2024-02-01'' ''M001'' ''B003'' 20 0))) = [50, 30, 0] \<and>
   map b_bstock (books_of (snd (add_sale (snd (add_sale seeded_db ''2024-02-01'' ''M001'' ''B003'' 20 0))
       ''2024-02-02'' ''M002'' ''B003'' 1 0))) = [50, 30, 0]"
proof -
  have r: "reachable (snd (add_sale seeded_db ''2024-02-01'' ''M001'' ''B003'' 20 0))"
    by (rule reachable.added [OF reachable.seeded])
  have e: "snd (add_sale seeded_db ''2024-02-01'' ''M001'' ''B003'' 20 0) =
      seeded_db\<lparr>sale_tbl := Some (sales_of seeded_db @
          [\<lparr>s_sid = 5, s_sdate = ''2024-02-01'', s_mid = ''M001'', s_bid = ''B003'',
            s_sqty = 20, s_sdiscount = 0, s_stotal = 24000\<rparr>]),
        sale_seq := 5,
        book_tbl := Some (decrement_stock 20 ''B003'' seed_books)\<rparr>"
    by (simp add: seeded_db_eq add_sale_def insert_sale_def top_rowid_def sqlite_int_def
        seed_defs read_defs decrement_stock_def)
  from stock_never_negative [OF r, of "''2024-02-02''" "''M002''" "''B003''" 1 0] r
  show ?thesis
    by (simp add: e) (simp add: seeded_db_eq add_sale_def seed_defs read_defs decrement_stock_def)
qed

section \<open>Sale identifiers\<close>

lemma sale_seq_add_sale: "sale_seq d \<le> sale_seq (snd (add_sale d sdate mid bid sqty sdiscount))"
proof -
  from add_sale_cases [of d sdate mid bid sqty sdiscount]
  consider "snd (add_sale d sdate mid bid sqty sdiscount) = d"
    | rows where "sale_seq (snd (add_sale d sdate mid bid sqty sdiscount)) = top_rowid d rows + 1"
    by force
  then show ?thesis
  proof cases
    case 1
    then show ?thesis by simp
  next
    case 2
    with top_rowid_ge_seq [of d rows] show ?thesis by simp
  qed
qed

lemma sale_seq_update_sale: "sale_seq (snd (update_sale d inp)) = sale_seq d"
  using update_sale_cases [of d inp] by auto

lemma sale_seq_delete_sale: "sale_seq (snd (delete_sale d inp)) = sale_seq d"
  using delete_sale_cases [of d inp] by auto

lemma sale_seq_apply_op: "sale_seq d \<le> sale_seq (apply_op x d)"
  by (cases x) (simp_all add: sale_seq_add_sale sale_seq_update_sale sale_seq_delete_sale)

lemma consistent_apply_op: "consistent d \<Longrightarrow> consistent (apply_op x d)"
  by (cases x) (simp_all add: consistent_add_sale consistent_update_sale consistent_delete_sale)

lemma run_invariant: "consistent d \<Longrightarrow> consistent (run xs d) \<and> sale_seq d \<le> sale_seq (run xs d)"
proof (induction xs arbitrary: d)
  case Nil
  then show ?case by simp
next
  case (Cons x xs)
  from Cons.prems have "consistent (apply_op x d)" by (rule consistent_apply_op)
  from Cons.IH [OF this] sale_seq_apply_op [of d x] show ?case by simp
qed

lemma new_id_add_sale:
  assumes "new \<in> set (sale_ids (snd (add_sale d sdate mid bid sqty sdiscount)))"
    and "new \<notin> set (sale_ids d)"
  shows "sale_seq d < new"
proof -
  from add_sale_cases [of d sdate mid bid sqty sdiscount]
  consider "snd (add_sale d sdate mid bid sqty sdiscount) = d"
    | rows r where "sale_tbl d = Some rows" "s_sid r = top_rowid d rows + 1"
      "sales_of (snd (add_sale d sdate mid bid sqty sdiscount)) = rows @ [r]"
    by (force simp: sales_of_def)
  then show ?thesis
  proof cases
    case 1
    with assms show ?thesis by simp
  next
    case 2
    have "sale_ids (snd (add_sale d sdate mid bid sqty sdiscount)) = map s_sid rows @ [s_sid r]"
      by (simp add: sale_ids_def 2(3))
    moreover have "sale_ids d = map s_sid rows"
      by (simp add: sale_ids_def sales_of_def 2(1))
    ultimately have "new = top_rowid d rows + 1"
      using assms 2(2) by auto
    with top_rowid_ge_seq [of d rows] show ?thesis by simp
  qed
qed

lemma new_id_update_sale:
  "sale_ids (snd (update_sale d inp)) = sale_ids d"
proof -
  from update_sale_cases [of d inp]
  consider "snd (update_sale d inp) = d"
    | rows nd t k where "sale_tbl d = Some rows"
      "snd (update_sale d inp) = d\<lparr>sale_tbl := Some (set_discount nd t k rows)\<rparr>"
    by blast
  then show ?thesis
  proof cases
    case 1
    then show ?thesis by simp
  next
    case 2
    then show ?thesis by (simp add: sale_ids_def sales_of_def map_sid_set_discount)
  qed
qed

lemma new_id_delete_sale:
  "set (sale_ids (snd (delete_sale d inp))) \<subseteq> set (sale_ids d)"
proof -
  from delete_sale_cases [of d inp]
  consider "snd (delete_sale d inp) = d"
    | rows k where "sale_tbl d = Some rows"
      "snd (delete_sale d inp) = d\<lparr>sale_tbl := Some (delete_row k rows)\<rparr>"
    by blast
  then show ?thesis
  proof cases
    case 1
    then show ?thesis by simp
  next
    case 2
    then show ?thesis by (auto simp: sale_ids_def sales_of_def delete_row_def)
  qed
qed

lemma new_id_apply_op:
  assumes "new \<in> set (sale_ids (apply_op x d))" "new \<notin> set (sale_ids d)"
  shows "sale_seq d < new"
proof (cases x)
  case (Create sdate mid bid sqty sdiscount)
  with assms show ?thesis using new_id_add_sale by simp
next
  case (Amend inp)
  with assms show ?thesis using new_id_update_sale by simp
next
  case (Remove inp)
  with assms show ?thesis using new_id_delete_sale by auto
qed

text \<open>
  Claim C7. Take a consistent store \<open>d\<close>, any sequence \<open>xs\<close> of creations, discount
  updates and deletions run from it, and one more operation \<open>x\<close>. An identifier that
  is in the sale table after \<open>x\<close> and was not there before it is greater than
  \<open>sale_seq d\<close>, hence greater than every identifier the table of \<open>d\<close> held, whether
  or not \<open>xs\<close> deleted it. As \<open>d\<close> is any store of the run, a new sale's identifier is
  greater than every identifier given out before.
\<close>

theorem sale_ids_never_reused:
  assumes "consistent d"
    and "new \<in> set (sale_ids (apply_op x (run xs d)))"
    and "new \<notin> set (sale_ids (run xs d))"
  shows "sale_seq d < new \<and> (\<forall>k \<in> set (sale_ids d). k < new)"
proof -
  from new_id_apply_op [OF assms(2,3)] have "sale_seq (run xs d) < new" .
  with run_invariant [OF assms(1), of xs] have "sale_seq d < new" by simp
  moreover from assms(1) have "\<forall>k \<in> set (sale_ids d). k \<le> sale_seq d"
    by (simp add: consistent_def)
  ultimately show ?thesis by fastforce
qed

text \<open>Sale 4 of the seeded store is deleted; the next sale gets 5, not 4.\<close>

theorem sale_ids_never_reused_witness:
  "sale_ids seeded_db = [1, 2, 3, 4] \<and>
   sale_ids (run [Remove [Number 4]] seeded_db) = [1, 2, 3] \<and>
   sale_ids (apply_op (Create ''2024-02-01'' ''M001'' ''B001'' 2 100) (run [Remove [Number 4]] seeded_db))
     = [1, 2, 3, 5] \<and>
   sale_seq seeded_db < 5 \<and> (4::int) < 5"
proof -
  have a: "snd (delete_sale seeded_db [Number 4]) =
      seeded_db\<lparr>sale_tbl := Some (butlast (sales_of seeded_db))\<rparr>"
    by (simp add: seeded_db_eq delete_sale_def sale_listing_def seed_defs read_defs delete_row_def)
  have b: "sale_ids (snd (add_sale (seeded_db\<lparr>sale_tbl := Some (butlast (sales_of seeded_db))\<rparr>)
        ''2024-02-01'' ''M001'' ''B001'' 2 100)) = [1, 2, 3, 5]"
    by (simp add: seeded_db_eq add_sale_def insert_sale_def top_rowid_def sqlite_int_def
        seed_defs read_defs)
  have c: "sale_ids seeded_db = [1, 2, 3, 4]"
    "sale_ids (seeded_db\<lparr>sale_tbl := Some (butlast (sales_of seeded_db))\<rparr>) = [1, 2, 3]"
    by (simp_all add: seeded_db_eq read_defs)
  from sale_ids_never_reused [OF consistent_seeded, of 5
      "Create ''2024-02-01'' ''M001'' ''B001'' 2 100" "[Remove [Number 4]]"]
  show ?thesis
    by (simp add: a b c)
qed

section \<open>update_sale and delete_sale on a listed sale\<close>

lemma consistent_tables:
  assumes "consistent d"
  shows "member_tbl d = Some (members_of d) \<and> book_tbl d = Some (books_of d) \<and>
         sale_tbl d = Some (sales_of d)"
  using assms by (auto simp: consistent_def read_defs)

lemma sale_listing_eq:
  assumes "consistent d"
  shows "sale_listing d =
     Inr (concat (map (\<lambda>s. map (\<lambda>m. (s_sid s, s_sdate s, m_mname m))
                               (filter (\<lambda>m. s_mid s = m_mid m) (members_of d)))
                      (sort_key s_sid (sales_of d))))"
  using consistent_tables [OF assms] by (simp add: sale_listing_def)

lemma sale_listed:
  assumes c: "consistent d" and s: "s \<in> set (sales_of d)"
  shows "\<exists>idx. selects d idx (s_sid s)"
proof -
  let ?sales = "concat (map (\<lambda>s. map (\<lambda>m. (s_sid s, s_sdate s, m_mname m))
                               (filter (\<lambda>m. s_mid s = m_mid m) (members_of d)))
                      (sort_key s_sid (sales_of d)))"
  from c s obtain m where m: "m \<in> set (members_of d)" "s_mid s = m_mid m"
    by (auto simp: consistent_def)
  with s have "(s_sid s, s_sdate s, m_mname m) \<in> set ?sales" by auto
  then obtain i where i: "i < length ?sales" "?sales ! i = (s_sid s, s_sdate s, m_mname m)"
    unfolding in_set_conv_nth by blast
  then have "selects d (int i + 1) (s_sid s)"
    by (simp add: selects_def sale_listing_eq [OF c])
  then show ?thesis ..
qed

lemma select_qty_price_eq:
  assumes ds: "distinct (map s_sid rows)" and s: "s \<in> set rows"
    and db: "distinct (map b_bid books)"
    and b: "find (\<lambda>b. b_bid b = s_bid s) books = Some book"
  shows "select_qty_price (s_sid s) rows books = Some (s_sqty s, b_bprice book)"
proof -
  from find_SomeD [OF b] have bk: "book \<in> set books" "b_bid book = s_bid s" by simp_all
  have "filter (\<lambda>r. s_sid r = s_sid s) rows = [s]"
    by (rule filter_key_single [OF ds s])
  moreover have "filter (\<lambda>b. s_bid s = b_bid b) books = filter (\<lambda>b. b_bid b = b_bid book) books"
    using bk(2) by (auto intro: filter_cong)
  moreover have "filter (\<lambda>b. b_bid b = b_bid book) books = [book]"
    by (rule filter_key_single [OF db bk(1)])
  ultimately show ?thesis by (simp add: select_qty_price_def)
qed

lemma set_discount_one:
  assumes ds: "distinct (map s_sid rows)" and s: "s \<in> set rows"
  shows "set_discount nd t (s_sid s) rows =
         map (\<lambda>r. if r = s then s\<lparr>s_sdiscount := nd, s_stotal := t\<rparr> else r) rows"
  unfolding set_discount_def
proof (rule map_cong [OF refl])
  fix r assume "r \<in> set rows"
  with distinct_key_eq [OF ds this s] show
    "(if s_sid r = s_sid s then r\<lparr>s_sdiscount := nd, s_stotal := t\<rparr> else r) =
     (if r = s then s\<lparr>s_sdiscount := nd, s_stotal := t\<rparr> else r)"
    by auto
qed

lemma update_sale_selected:
  assumes c: "consistent d" and s: "s \<in> set (sales_of d)"
    and p: "price_of d (s_bid s) = Some bprice"
    and nd: "0 \<le> new_discount" "sqlite_int new_discount"
      "sqlite_int (formula_total bprice (s_sqty s) new_discount)"
    and sel: "selects d idx (s_sid s)"
  shows "update_sale d (Number idx # Number new_discount # inp) =
     (Inr (Sale_updated (s_sid s) (formula_total bprice (s_sqty s) new_discount)),
      d\<lparr>sale_tbl := Some (map (\<lambda>r. if r = s
            then s\<lparr>s_sdiscount := new_discount,
                   s_stotal := formula_total bprice (s_sqty s) new_discount\<rparr>
            else r) (sales_of d))\<rparr>)"
proof -
  from sel obtain sales where l: "sale_listing d = Inr sales"
    and r: "\<not> (idx < 1 \<or> idx > int (length sales))" and k: "fst (sales ! nat (idx - 1)) = s_sid s"
    by (auto simp: selects_def split: sum.splits)
  from r have ne: "sales \<noteq> []" by auto
  note t = consistent_tables [OF c]
  from c have ds: "distinct (map s_sid (sales_of d))" and db: "distinct (map b_bid (books_of d))"
    by (simp_all add: consistent_def sale_ids_def)
  from p obtain book where b: "find (\<lambda>b. b_bid b = s_bid s) (books_of d) = Some book"
    "b_bprice book = bprice" by (auto simp: price_of_def)
  have q: "select_qty_price (s_sid s) (sales_of d) (books_of d) = Some (s_sqty s, bprice)"
    using select_qty_price_eq [OF ds s db b(1)] b(2) by simp
  show ?thesis
    using l r ne k nd t
    by (simp add: update_sale_def Let_def q formula_total_def [symmetric]
        set_discount_one [OF ds s])
qed

text \<open>
  Claim C4, amended. In a consistent store take a sale \<open>s\<close>, the current price
  \<open>bprice\<close> of its book and a new discount that is at least 0 and fits the signed 64-bit
  \<open>INTEGER\<close> of SQLite, as does the recomputed total. Then the listing offers the
  sale under some number, and for every number that selects it \<open>update_sale\<close> reports
  the total \<open>max (bprice * s_sqty s - new_discount) 0\<close> and returns the store in which
  only the sale table differs: the row \<open>s\<close> has the new discount and that total, its
  \<open>sid\<close>, date, member, book and quantity are as before, every other row is as
  before. The book table, and so every stock, is the one of \<open>d\<close>.
\<close>

theorem update_sale_discount:
  assumes "consistent d" and "s \<in> set (sales_of d)"
    and "price_of d (s_bid s) = Some bprice"
    and "0 \<le> new_discount" "sqlite_int new_discount"
    and "sqlite_int (formula_total bprice (s_sqty s) new_discount)"
  shows "(\<exists>idx. selects d idx (s_sid s)) \<and>
         (\<forall>idx. selects d idx (s_sid s) \<longrightarrow>
            update_sale d (Number idx # Number new_discount # inp) =
              (Inr (Sale_updated (s_sid s) (formula_total bprice (s_sqty s) new_discount)),
               d\<lparr>sale_tbl := Some (map (\<lambda>r. if r = s
                     then s\<lparr>s_sdiscount := new_discount,
                            s_stotal := formula_total bprice (s_sqty s) new_discount\<rparr>
                     else r) (sales_of d))\<rparr>))"
  using sale_listed [OF assms(1,2)] update_sale_selected [OF assms] by blast

lemma selects_seeded: "selects seeded_db 1 1" "selects seeded_db 2 2"
  by (simp_all add: selects_def sale_listing_def seeded_db_eq seed_defs)

text \<open>The example of the spec: sale 1 of the seeded store (two copies at 600) with
  the new discount 50 gets the total 1150.\<close>

theorem update_sale_discount_witness:
  "update_sale seeded_db [Number 1, Number 50] =
     (Inr (Sale_updated 1 1150),
      seeded_db\<lparr>sale_tbl := Some
        (\<lparr>s_sid = 1, s_sdate = ''2024-01-15'', s_mid = ''M001'', s_bid = ''B001'',
          s_sqty = 2, s_sdiscount = 50, s_stotal = 1150\<rparr> # tl (sales_of seeded_db))\<rparr>)"
proof -
  have s: "hd (sales_of seeded_db) \<in> set (sales_of seeded_db)"
    by (simp add: seeded_db_eq read_defs)
  have p: "price_of seeded_db (s_bid (hd (sales_of seeded_db))) = Some 600"
    by (simp add: seeded_db_eq read_defs seed_defs)
  have f: "sqlite_int 50" "sqlite_int (formula_total 600 (s_sqty (hd (sales_of seeded_db))) 50)"
    by (simp_all add: seeded_db_eq read_defs sqlite_int_def formula_total_def)
  have k: "selects seeded_db 1 (s_sid (hd (sales_of seeded_db)))"
    using selects_seeded(1) by (simp add: seeded_db_eq read_defs)
  from update_sale_discount [OF consistent_seeded s p _ f, of "[]"] k
  have "update_sale seeded_db [Number 1, Number 50] =
      (Inr (Sale_updated (s_sid (hd (sales_of seeded_db)))
             (formula_total 600 (s_sqty (hd (sales_of seeded_db))) 50)),
       seeded_db\<lparr>sale_tbl := Some (map (\<lambda>r. if r = hd (sales_of seeded_db)
             then (hd (sales_of seeded_db))\<lparr>s_sdiscount := 50,
                    s_stotal := formula_total 600 (s_sqty (hd (sales_of seeded_db))) 50\<rparr>
             else r) (sales_of seeded_db))\<rparr>)"
    by simp
  then show ?thesis
    by (simp add: seeded_db_eq read_defs formula_total_def)
qed

text \<open>
  Claim C4, as stated, fails. Sale 1 exists in the seeded store and \<open>2^63\<close> is a
  discount \<ge> 0, but it does not fit an \<open>INTEGER\<close>: binding it for the \<open>UPDATE\<close>
  raises \<open>OverflowError\<close>, which \<open>update_sale\<close> does not handle, and the sale keeps
  its discount and total.
\<close>

theorem update_sale_overflow_counterexample:
  "(1::int) \<in> set (sale_ids seeded_db) \<and> (0::int) \<le> 2 ^ 63 \<and> selects seeded_db 1 1 \<and>
   update_sale seeded_db [Number 1, Number (2 ^ 63)] = (Inl OverflowError, seeded_db)"
  using selects_seeded(1)
  by (simp add: seeded_db_eq read_defs update_sale_def sale_listing_def select_qty_price_def
      seed_defs sqlite_int_def)

lemma delete_sale_selected:
  assumes c: "consistent d" and s: "s \<in> set (sales_of d)"
    and sel: "selects d idx (s_sid s)"
  shows "delete_sale d (Number idx # inp) =
     (Inr (Sale_deleted (s_sid s)), d\<lparr>sale_tbl := Some (remove1 s (sales_of d))\<rparr>)"
proof -
  from sel obtain sales where l: "sale_listing d = Inr sales"
    and r: "\<not> (idx < 1 \<or> idx > int (length sales))" and k: "fst (sales ! nat (idx - 1)) = s_sid s"
    by (auto simp: selects_def split: sum.splits)
  from r have ne: "sales \<noteq> []" by auto
  note t = consistent_tables [OF c]
  from c have ds: "distinct (map s_sid (sales_of d))"
    by (simp add: consistent_def sale_ids_def)
  have "delete_row (s_sid s) (sales_of d) = remove1 s (sales_of d)"
    unfolding delete_row_def by (rule filter_key_remove1 [OF ds s])
  then show ?thesis
    using l r ne k t by (simp add: delete_sale_def Let_def)
qed

text \<open>
  Claim C6. In a consistent store every sale \<open>s\<close> is offered by the listing, and for
  every number that selects it \<open>delete_sale\<close> reports its \<open>sid\<close> and returns the store
  in which only the sale table differs: it is the old one without \<open>s\<close>, one row
  shorter, with every other row as it was. The book table is untouched, so no stock is
  given back, and \<open>sale_seq\<close> is as before.
\<close>

theorem delete_sale_removes_one:
  assumes "consistent d" and "s \<in> set (sales_of d)"
  shows "(\<exists>idx. selects d idx (s_sid s)) \<and>
         (\<forall>idx. selects d idx (s_sid s) \<longrightarrow>
            delete_sale d (Number idx # inp) =
              (Inr (Sale_deleted (s_sid s)), d\<lparr>sale_tbl := Some (remove1 s (sales_of d))\<rparr>) \<and>
            books_of (snd (delete_sale d (Number idx # inp))) = books_of d \<and>
            sale_seq (snd (delete_sale d (Number idx # inp))) = sale_seq d) \<and>
         length (remove1 s (sales_of d)) = length (sales_of d) - 1 \<and>
         set (remove1 s (sales_of d)) = set (sales_of d) - {s}"
proof -
  from assms(1) have "distinct (map s_sid (sales_of d))"
    by (simp add: consistent_def sale_ids_def)
  then have "distinct (sales_of d)" by (simp add: distinct_map)
  then have "set (remove1 s (sales_of d)) = set (sales_of d) - {s}" by simp
  moreover have "length (remove1 s (sales_of d)) = length (sales_of d) - 1"
    using assms(2) by (simp add: length_remove1)
  ultimately show ?thesis
    using sale_listed [OF assms] delete_sale_selected [OF assms]
    by (simp add: books_of_def)
qed

text \<open>Deleting sale 2 of the seeded store leaves the sales 1, 3 and 4 and the seed
  books with their stocks.\<close>

theorem delete_sale_removes_one_witness:
  "delete_sale seeded_db [Number 2] =
     (Inr (Sale_deleted 2),
      seeded_db\<lparr>sale_tbl := Some (remove1 (sales_of seeded_db ! 1) (sales_of seeded_db))\<rparr>) \<and>
   sale_ids (snd (delete_sale seeded_db [Number 2])) = [1, 3, 4] \<and>
   books_of (snd (delete_sale seeded_db [Number 2])) = seed_books"
proof -
  have s: "sales_of seeded_db ! 1 \<in> set (sales_of seeded_db)"
    by (simp add: seeded_db_eq read_defs)
  have k: "selects seeded_db 2 (s_sid (sales_of seeded_db ! 1))"
    using selects_seeded(2) by (simp add: seeded_db_eq read_defs)
  from delete_sale_removes_one [OF consistent_seeded s, of "[]"] k
  have "delete_sale seeded_db [Number 2] =
     (Inr (Sale_deleted (s_sid (sales_of seeded_db ! 1))),
      seeded_db\<lparr>sale_tbl := Some (remove1 (sales_of seeded_db ! 1) (sales_of seeded_db))\<rparr>)"
    by simp
  then show ?thesis
    by (simp add: seeded_db_eq read_defs)
qed

section \<open>The seed gate of initialize_db\<close>

lemma rows_create_tables:
  "members_of (create_tables d) = members_of d"
  "books_of (create_tables d) = books_of d"
  "sales_of (create_tables d) = sales_of d"
  "sale_seq (create_tables d) = sale_seq d"
  by (simp_all add: create_tables_def create_if_not_exists_def read_defs split: option.splits)

lemma tables_create_tables:
  "member_tbl (create_tables d) = Some (members_of d)"
  "book_tbl (create_tables d) = Some (books_of d)"
  "sale_tbl (create_tables d) = Some (sales_of d)"
  by (simp_all add: create_tables_def create_if_not_exists_def read_defs split: option.splits)

lemma initialize_db_nonempty:
  assumes "members_of d \<noteq> []"
  shows "initialize_db d = (Inr (), create_tables d)"
  using assms
  by (simp add: initialize_db_def count_member_def tables_create_tables)

lemma executescript_member_frame:
  assumes "\<And>st d d'. st \<in> set sts \<Longrightarrow> st d = Inr d' \<Longrightarrow> member_tbl d' = member_tbl d"
  shows "member_tbl (snd (executescript sts d)) = member_tbl d"
  using assms
proof (induction sts arbitrary: d)
  case Nil
  show ?case by simp
next
  case (Cons st sts)
  show ?case
  proof (cases "st d")
    case (Inl e)
    then show ?thesis by simp
  next
    case (Inr d')
    have "\<And>st d d'. st \<in> set sts \<Longrightarrow> st d = Inr d' \<Longrightarrow> member_tbl d' = member_tbl d"
      using Cons.prems by (meson list.set_intros(2))
    then have "member_tbl (snd (executescript sts d')) = member_tbl d'"
      by (rule Cons.IH)
    moreover have "member_tbl d' = member_tbl d"
      using Cons.prems [of st d d'] Inr by simp
    ultimately show ?thesis using Inr by simp
  qed
qed

lemma insert_book_member: "insert_book r d = Inr d' \<Longrightarrow> member_tbl d' = member_tbl d"
  by (auto simp: insert_book_def split: option.splits if_splits)

lemma insert_sale_member:
  "insert_sale sdate mid bid sqty sdiscount stotal d = Inr d' \<Longrightarrow> member_tbl d' = member_tbl d"
  by (auto dest: insert_sale_Inr)

lemma seed_starts:
  assumes "members_of d = []"
  shows "members_of (snd (initialize_db d)) = seed_members"
proof -
  let ?rest = "map insert_book seed_books @
     map (\<lambda>(sdate, mid, bid, sqty, sdiscount, stotal).
            insert_sale sdate mid bid sqty sdiscount stotal) seed_sales"
  let ?d1 = "(create_tables d)\<lparr>member_tbl := Some seed_members\<rparr>"
  have "initialize_db d = executescript seed_script (create_tables d)"
    using assms by (simp add: initialize_db_def count_member_def tables_create_tables)
  also have "\<dots> = executescript ?rest ?d1"
    using assms
    by (simp add: seed_script_def seed_members_def insert_member_def tables_create_tables)
  finally have "member_tbl (snd (initialize_db d)) = member_tbl (snd (executescript ?rest ?d1))"
    by simp
  also have "\<dots> = member_tbl ?d1"
    by (rule executescript_member_frame) (auto dest: insert_book_member insert_sale_member)
  finally show ?thesis by (simp add: members_of_def)
qed

lemma fold_max_above: "0 \<le> n \<Longrightarrow> fold max xs (fold max xs a + n) = fold max xs (a::int) + n"
proof -
  assume n: "0 \<le> n"
  have ge: "\<forall>x \<in> set xs. x \<le> fold max xs a + n"
    using fold_max_ge_elem [of _ xs a] n by fastforce
  have "\<And>b. \<forall>x \<in> set xs. x \<le> b \<Longrightarrow> fold max xs b = (b::int)"
    by (induction xs) (simp_all add: max_def)
  from this [OF ge] show ?thesis .
qed

lemma create_tables_eq:
  "create_tables d = \<lparr>member_tbl = Some (members_of d), book_tbl = Some (books_of d),
     sale_tbl = Some (sales_of d), sale_seq = sale_seq d\<rparr>"
  by (simp add: create_tables_def create_if_not_exists_def read_defs split: option.splits)

lemma insert_sale_literal:
  assumes "sqlite_int sqty" "sqlite_int sdiscount" "sqlite_int stotal"
    and "fold max (map s_sid rows) seq < 2 ^ 63 - 1"
  shows "insert_sale sdate mid bid sqty sdiscount stotal
           \<lparr>member_tbl = M, book_tbl = B, sale_tbl = Some rows, sale_seq = seq\<rparr> =
         Inr \<lparr>member_tbl = M, book_tbl = B,
              sale_tbl = Some (rows @
                [\<lparr>s_sid = fold max (map s_sid rows) seq + 1, s_sdate = sdate, s_mid = mid,
                  s_bid = bid, s_sqty = sqty, s_sdiscount = sdiscount, s_stotal = stotal\<rparr>]),
              sale_seq = fold max (map s_sid rows) seq + 1\<rparr>"
  using assms by (simp add: insert_sale_def top_rowid_def Let_def)

lemma seed_complete:
  assumes m: "members_of d = []"
    and b: "set (map b_bid seed_books) \<inter> set (map b_bid (books_of d)) = {}"
    and k: "top_rowid d (sales_of d) \<le> 2 ^ 63 - 5"
  shows "initialize_db d =
     (Inr (),
      \<lparr>member_tbl = Some seed_members,
       book_tbl = Some (books_of d @ seed_books),
       sale_tbl = Some (sales_of d @
         map (\<lambda>(i, sdate, mid, bid, sqty, sdiscount, stotal).
                \<lparr>s_sid = top_rowid d (sales_of d) + i, s_sdate = sdate, s_mid = mid, s_bid = bid,
                 s_sqty = sqty, s_sdiscount = sdiscount, s_stotal = stotal\<rparr>)
             (zip [1, 2, 3, 4] seed_sales)),
       sale_seq = top_rowid d (sales_of d) + 4\<rparr>)"
proof -
  let ?ids = "map s_sid (sales_of d)"
  define t where "t = fold max ?ids (sale_seq d)"
  have t: "top_rowid d (sales_of d) = t" by (simp add: t_def top_rowid_def)
  let ?M = "Some seed_members" and ?B = "Some (books_of d @ seed_books)"
  let ?r1 = "\<lparr>s_sid = t + 1, s_sdate = ''2024-01-15'', s_mid = ''M001'', s_bid = ''B001'',
      s_sqty = 2, s_sdiscount = 100, s_stotal = 1100\<rparr>"
  let ?r2 = "\<lparr>s_sid = t + 2, s_sdate = ''2024-01-16'', s_mid = ''M002'', s_bid = ''B002'',
      s_sqty = 1, s_sdiscount = 50, s_stotal = 750\<rparr>"
  let ?r3 = "\<lparr>s_sid = t + 3, s_sdate = ''2024-01-17'', s_mid = ''M001'', s_bid = ''B003'',
      s_sqty = 3, s_sdiscount = 200, s_stotal = 3400\<rparr>"
  let ?r4 = "\<lparr>s_sid = t + 4, s_sdate = ''2024-01-18'', s_mid = ''M003'', s_bid = ''B001'',
      s_sqty = 1, s_sdiscount = 0, s_stotal = 600\<rparr>"
  have top: "fold max ?ids (t + n) = t + n" if "0 \<le> n" for n
    unfolding t_def using that by (rule fold_max_above)
  from k t have kt: "t \<le> 2 ^ 63 - 5" by simp
  have i1: "insert_sale ''2024-01-15'' ''M001'' ''B001'' 2 100 1100
        \<lparr>member_tbl = ?M, book_tbl = ?B, sale_tbl = Some (sales_of d), sale_seq = sale_seq d\<rparr> =
      Inr \<lparr>member_tbl = ?M, book_tbl = ?B, sale_tbl = Some (sales_of d @ [?r1]), sale_seq = t + 1\<rparr>"
    using kt by (subst insert_sale_literal) (simp_all add: sqlite_int_def t_def [symmetric])
  have i2: "insert_sale ''2024-01-16'' ''M002'' ''B002'' 1 50 750
        \<lparr>member_tbl = ?M, book_tbl = ?B, sale_tbl = Some (sales_of d @ [?r1]), sale_seq = t + 1\<rparr> =
      Inr \<lparr>member_tbl = ?M, book_tbl = ?B, sale_tbl = Some (sales_of d @ [?r1, ?r2]), sale_seq = t + 2\<rparr>"
    using kt by (subst insert_sale_literal) (simp_all add: sqlite_int_def top)
  have i3: "insert_sale ''2024-01-17'' ''M001'' ''B003'' 3 200 3400
        \<lparr>member_tbl = ?M, book_tbl = ?B, sale_tbl = Some (sales_of d @ [?r1, ?r2]), sale_seq = t + 2\<rparr> =
      Inr \<lparr>member_tbl = ?M, book_tbl = ?B, sale_tbl = Some (sales_of d @ [?r1, ?r2, ?r3]), sale_seq = t + 3\<rparr>"
    using kt by (subst insert_sale_literal) (simp_all add: sqlite_int_def top)
  have i4: "insert_sale ''2024-01-18'' ''M003'' ''B001'' 1 0 600
        \<lparr>member_tbl = ?M, book_tbl = ?B, sale_tbl = Some (sales_of d @ [?r1, ?r2, ?r3]), sale_seq = t + 3\<rparr> =
      Inr \<lparr>member_tbl = ?M, book_tbl = ?B, sale_tbl = Some (sales_of d @ [?r1, ?r2, ?r3, ?r4]), sale_seq = t + 4\<rparr>"
    using kt by (subst insert_sale_literal) (simp_all add: sqlite_int_def top)
  let ?sales = "map (\<lambda>(sdate, mid, bid, sqty, sdiscount, stotal).
            insert_sale sdate mid bid sqty sdiscount stotal) seed_sales"
  let ?d2 = "\<lparr>member_tbl = ?M, book_tbl = ?B, sale_tbl = Some (sales_of d), sale_seq = sale_seq d\<rparr>"
  have "initialize_db d = executescript seed_script (create_tables d)"
    using m by (simp add: initialize_db_def count_member_def tables_create_tables)
  also have "\<dots> = executescript ?sales ?d2"
    using m b
    by (simp add: create_tables_eq seed_script_def seed_members_def seed_books_def
        insert_member_def insert_book_def sqlite_int_def)
  also have "\<dots> = (Inr (), \<lparr>member_tbl = ?M, book_tbl = ?B,
        sale_tbl = Some (sales_of d @ [?r1, ?r2, ?r3, ?r4]), sale_seq = t + 4\<rparr>)"
    by (simp add: seed_sales_def i1 i2 i3 i4)
  finally show ?thesis by (simp add: t seed_sales_def)
qed

text \<open>
  Claim C10, amended. The seed script runs exactly when the member table has no row.
  With a row in the member table \<open>initialize_db\<close> only creates the tables that are
  missing and inserts nothing, also when the book or the sale table is empty. With no
  row in it the three seed members are always inserted; the seed books and the four
  seed sales are all inserted as well when no book with a seed identifier is stored
  yet and four more sale identifiers are available.
\<close>

theorem initialize_db_seed_gate:
  "(members_of d \<noteq> [] \<longrightarrow>
      initialize_db d = (Inr (), create_tables d) \<and>
      members_of (snd (initialize_db d)) = members_of d \<and>
      books_of (snd (initialize_db d)) = books_of d \<and>
      sales_of (snd (initialize_db d)) = sales_of d) \<and>
   (members_of d = [] \<longrightarrow> members_of (snd (initialize_db d)) = seed_members) \<and>
   (members_of d = [] \<and> set (map b_bid seed_books) \<inter> set (map b_bid (books_of d)) = {} \<and>
    top_rowid d (sales_of d) \<le> 2 ^ 63 - 5 \<longrightarrow>
      fst (initialize_db d) = Inr () \<and>
      members_of (snd (initialize_db d)) = seed_members \<and>
      books_of (snd (initialize_db d)) = books_of d @ seed_books \<and>
      sales_of (snd (initialize_db d)) = sales_of d @
         map (\<lambda>(i, sdate, mid, bid, sqty, sdiscount, stotal).
                \<lparr>s_sid = top_rowid d (sales_of d) + i, s_sdate = sdate, s_mid = mid, s_bid = bid,
                 s_sqty = sqty, s_sdiscount = sdiscount, s_stotal = stotal\<rparr>)
             (zip [1, 2, 3, 4] seed_sales))"
proof (intro conjI impI)
  assume "members_of d \<noteq> []"
  note e = initialize_db_nonempty [OF this]
  show "initialize_db d = (Inr (), create_tables d)" by (rule e)
  show "members_of (snd (initialize_db d)) = members_of d" by (simp add: e rows_create_tables)
  show "books_of (snd (initialize_db d)) = books_of d" by (simp add: e rows_create_tables)
  show "sales_of (snd (initialize_db d)) = sales_of d" by (simp add: e rows_create_tables)
next
  assume "members_of d = []"
  then show "members_of (snd (initialize_db d)) = seed_members" by (rule seed_starts)
next
  assume a: "members_of d = [] \<and> set (map b_bid seed_books) \<inter> set (map b_bid (books_of d)) = {} \<and>
    top_rowid d (sales_of d) \<le> 2 ^ 63 - 5"
  then have e: "initialize_db d =
     (Inr (),
      \<lparr>member_tbl = Some seed_members,
       book_tbl = Some (books_of d @ seed_books),
       sale_tbl = Some (sales_of d @
         map (\<lambda>(i, sdate, mid, bid, sqty, sdiscount, stotal).
                \<lparr>s_sid = top_rowid d (sales_of d) + i, s_sdate = sdate, s_mid = mid, s_bid = bid,
                 s_sqty = sqty, s_sdiscount = sdiscount, s_stotal = stotal\<rparr>)
             (zip [1, 2, 3, 4] seed_sales)),
       sale_seq = top_rowid d (sales_of d) + 4\<rparr>)"
    by (intro seed_complete) simp_all
  show "fst (initialize_db d) = Inr ()" by (simp add: e)
  show "members_of (snd (initialize_db d)) = seed_members" by (simp add: e members_of_def)
  show "books_of (snd (initialize_db d)) = books_of d @ seed_books" by (simp add: e books_of_def)
  show "sales_of (snd (initialize_db d)) = sales_of d @
         map (\<lambda>(i, sdate, mid, bid, sqty, sdiscount, stotal).
                \<lparr>s_sid = top_rowid d (sales_of d) + i, s_sdate = sdate, s_mid = mid, s_bid = bid,
                 s_sqty = sqty, s_sdiscount = sdiscount, s_stotal = stotal\<rparr>)
             (zip [1, 2, 3, 4] seed_sales)"
    by (simp add: e sales_of_def)
qed

text \<open>A store with one member and no book and no sale is left as it is; the store
  with no table gets all seed rows.\<close>

theorem initialize_db_seed_gate_witness:
  "initialize_db \<lparr>member_tbl = Some [hd seed_members], book_tbl = Some [], sale_tbl = Some [],
       sale_seq = 0\<rparr> =
     (Inr (), \<lparr>member_tbl = Some [hd seed_members], book_tbl = Some [], sale_tbl = Some [],
       sale_seq = 0\<rparr>) \<and>
   fst (initialize_db empty_db) = Inr () \<and>
   members_of (snd (initialize_db empty_db)) = seed_members \<and>
   books_of (snd (initialize_db empty_db)) = seed_books \<and>
   sale_ids (snd (initialize_db empty_db)) = [1, 2, 3, 4]"
  using initialize_db_seed_gate [of "\<lparr>member_tbl = Some [hd seed_members], book_tbl = Some [],
       sale_tbl = Some [], sale_seq = 0\<rparr>"]
    initialize_db_seed_gate [of empty_db]
  by (simp add: read_defs empty_db_def create_tables_def create_if_not_exists_def
      seed_defs top_rowid_def)

text \<open>
  Claim C10, as stated, fails. The member table has zero rows and the book table
  already holds \<open>B001\<close>: the three members are inserted, the first \<open>INSERT INTO book\<close>
  violates the \<open>PRIMARY KEY\<close>, \<open>executescript\<close> raises \<open>IntegrityError\<close>, and neither
  the seed books nor the seed sales are inserted.
\<close>

theorem initialize_db_key_clash_counterexample:
  "members_of \<lparr>member_tbl = Some [], book_tbl = Some [hd seed_books], sale_tbl = Some [],
       sale_seq = 0\<rparr> = [] \<and>
   initialize_db \<lparr>member_tbl = Some [], book_tbl = Some [hd seed_books], sale_tbl = Some [],
       sale_seq = 0\<rparr> =
     (Inl IntegrityError,
      \<lparr>member_tbl = Some seed_members, book_tbl = Some [hd seed_books], sale_tbl = Some [],
       sale_seq = 0\<rparr>)"
  by (simp add: members_of_def initialize_db_def create_tables_def create_if_not_exists_def
      count_member_def seed_script_def seed_defs insert_member_def insert_book_def sqlite_int_def)

end
